theory Spec2Isabelle
  imports Main "HOL-Library.Word"
begin

unbundle bit_operations_syntax

section \<open>Python values of \<open>graphenebase/transactions.py\<close>\<close>

text \<open>
  The wire encoder and the signer of the module: the codec classes and their
  \<open>__bytes__\<close>, the composite objects with their JSON mirror, the registries, object
  ids, and \<open>Signed_Transaction.sign\<close> with the recovery of the public key.  The
  \<open>__str__\<close> methods and the helpers that nothing here calls are not part of it.

  A byte is an 8-bit word; a Python \<open>bytes\<close> object is a list of bytes.  A Python \<open>str\<close>
  is a \<open>string\<close>, each character standing for the code point of the same number
  (U+0000 to U+00FF).  Python integers are unbounded: \<open>int\<close>.
\<close>

type_synonym byte = "8 word"

text \<open>Every exception the module or a builtin it calls can raise is a value.\<close>

datatype error =
    TypeError
  | ValueError
  | StructError
  | KeyError
  | IndexError
  | AssertionError
  | AttributeError
  | BinasciiError
  | Exception string
  | LibraryError string

text \<open>Sequencing of two computations that may raise: the first exception wins.\<close>

definition bind_err :: "error + 'a \<Rightarrow> ('a \<Rightarrow> error + 'b) \<Rightarrow> error + 'b" where
  "bind_err m f = (case m of Inl e \<Rightarrow> Inl e | Inr x \<Rightarrow> f x)"

text \<open>\<open>a + b\<close> on two byte strings that are each the result of a call that may raise.\<close>

definition cat :: "error + byte list \<Rightarrow> error + byte list \<Rightarrow> error + byte list" where
  "cat a b = bind_err a (\<lambda>x. bind_err b (\<lambda>y. Inr (x @ y)))"

subsection \<open>Builtins\<close>

text \<open>\<open>bytes([x])\<close>: a one-element list of integers; ValueError outside \<open>range(256)\<close>.\<close>

definition bytes_of_int1 :: "int \<Rightarrow> error + byte list" where
  "bytes_of_int1 x = (if 0 \<le> x \<and> x < 256 then Inr [word_of_int x] else Inl ValueError)"

text \<open>
  Iterating a \<open>bytes\<close> object yields integers, iterating a \<open>str\<close> yields one-character
  strings.  \<open>ord\<close> accepts only the latter.
\<close>

datatype pyiter = BytesObj "byte list" | StrObj string

datatype item = IntItem int | CharItem char

fun items :: "pyiter \<Rightarrow> item list" where
  "items (BytesObj bs) = map (\<lambda>b. IntItem (uint b)) bs"
| "items (StrObj s) = map CharItem s"

fun ord :: "item \<Rightarrow> error + int" where
  "ord (IntItem n) = Inl TypeError"
| "ord (CharItem c) = Inr (of_char c)"

subsection \<open>Varint\<close>

text \<open>
  \<^verbatim>\<open>
  def varint(n):
      data = b''
      while n >= 0x80:
          data += bytes([ (n & 0x7f) | 0x80 ])
          n >>= 7
      data += bytes([n])
      return data
  \<close>
\<close>

function varint_loop :: "int \<Rightarrow> byte list \<Rightarrow> error + byte list" where
  "varint_loop n data =
     (if n \<ge> 0x80
      then (case bytes_of_int1 ((n AND 0x7f) OR 0x80) of
              Inl e \<Rightarrow> Inl e
            | Inr b \<Rightarrow> varint_loop (drop_bit 7 n) (data @ b))
      else (case bytes_of_int1 n of
              Inl e \<Rightarrow> Inl e
            | Inr b \<Rightarrow> Inr (data @ b)))"
  by pat_completeness auto
termination
  by (relation "measure (\<lambda>(n, data). nat n)") (auto simp: drop_bit_eq_div)

declare varint_loop.simps [simp del]

definition varint :: "int \<Rightarrow> error + byte list" where
  "varint n = varint_loop n []"

text \<open>
  \<^verbatim>\<open>
  def varintdecode(data):
      shift = 0
      result = 0
      for c in data:
          b = ord(c)
          result |= ((b & 0x7f) << shift)
          if not (b & 0x80):
              break
          shift += 7
      return result
  \<close>
\<close>

fun varintdecode_loop :: "item list \<Rightarrow> nat \<Rightarrow> int \<Rightarrow> error + int" where
  "varintdecode_loop [] shift result = Inr result"
| "varintdecode_loop (c # cs) shift result =
     (case ord c of
        Inl e \<Rightarrow> Inl e
      | Inr b \<Rightarrow>
          (let result' = result OR push_bit shift (b AND 0x7f)
           in if b AND 0x80 = 0 then Inr result'
              else varintdecode_loop cs (shift + 7) result'))"

definition varintdecode :: "pyiter \<Rightarrow> error + int" where
  "varintdecode data = varintdecode_loop (items data) 0 0"


text \<open>\<open>variable_buffer(s)\<close>: \<open>varint(len(s)) + s\<close>, for a byte string.\<close>

definition variable_buffer :: "byte list \<Rightarrow> error + byte list" where
  "variable_buffer s = cat (varint (int (length s))) (Inr s)"

subsection \<open>\<open>bytes(s, 'utf-8')\<close> and \<open>struct.pack\<close>\<close>

text \<open>UTF-8 of a code point below U+0100: one byte below U+0080, two bytes from there.\<close>

definition utf8_char :: "char \<Rightarrow> byte list" where
  "utf8_char c =
     (let n = of_char c :: nat
      in if n < 0x80 then [of_nat n]
         else [of_nat (0xC0 + n div 64), of_nat (0x80 + n mod 64)])"

definition utf8 :: "string \<Rightarrow> byte list" where
  "utf8 s = concat (map utf8_char s)"

text \<open>The \<open>k\<close> low bytes of an integer, least significant first (two's complement).\<close>

fun le_bytes :: "nat \<Rightarrow> int \<Rightarrow> byte list" where
  "le_bytes 0 n = []"
| "le_bytes (Suc k) n = word_of_int n # le_bytes k (n div 256)"

text \<open>
  \<open>struct.pack\<close> with the formats \<open><B\<close>, \<open><H\<close>, \<open><I\<close>, \<open><Q\<close> (unsigned, 1, 2, 4 and
  8 bytes) and \<open><q\<close> (signed, 8 bytes): \<open>struct.error\<close> when the number is out of range.
\<close>

definition pack_unsigned :: "nat \<Rightarrow> int \<Rightarrow> error + byte list" where
  "pack_unsigned k d =
     (if 0 \<le> d \<and> d < 2 ^ (8 * k) then Inr (le_bytes k d) else Inl StructError)"

definition pack_B :: "int \<Rightarrow> error + byte list" where "pack_B = pack_unsigned 1"
definition pack_H :: "int \<Rightarrow> error + byte list" where "pack_H = pack_unsigned 2"
definition pack_I :: "int \<Rightarrow> error + byte list" where "pack_I = pack_unsigned 4"
definition pack_Q :: "int \<Rightarrow> error + byte list" where "pack_Q = pack_unsigned 8"

definition pack_q :: "int \<Rightarrow> error + byte list" where
  "pack_q d =
     (if - (2 ^ 63) \<le> d \<and> d < 2 ^ 63 then Inr (le_bytes 8 d) else Inl StructError)"

subsection \<open>The codec classes\<close>

text \<open>
  One constructor for each class of the module whose instances can be built, holding the
  attributes that \<open>__init__\<close> sets; \<open>PyNone\<close> and \<open>PyStr\<close> are the two builtin values
  that the module itself puts where a codec object is expected (\<open>Optional(None)\<close>, a raw
  string as a field of a composite).  \<open>Fixed_array\<close> and \<open>Map\<close> raise
  \<open>NotImplementedError\<close> in \<open>__init__\<close> and have no instances.  \<open>GrapheneObject\<close> carries
  the name of the instance's class (an operation's tag is looked up from it) and its
  \<open>data\<close>, an ordered dictionary or \<open>None\<close>.  \<open>Extern\<close> is an object of a class defined
  in the \<open>account\<close> module (\<open>PublicKey\<close>): its class name and what its \<open>__bytes__\<close> returns.
\<close>

datatype pyval =
    PyNone
  | PyStr string
  | Uint8 int
  | Uint16 int
  | Uint32 int
  | Uint64 int
  | Varint32 int
  | Int64 int
  | String string
  | Bytes string int
  | Void
  | Array "pyval list"
  | PointInTime string
  | Signature "byte list"
  | Bool int
  | Set "pyval list"
  | Optional pyval
  | Static_variant pyval int
  | Id_obj int
  | Operation pyval string int
  | GrapheneObject string "(string \<times> pyval) list option"
  | ObjectId int int int string
  | Extern string "byte list"

text \<open>
  The \<open>__bytes__\<close> of the classes that other classes instantiate on the way:
  \<open>Uint8\<close> (through \<open>Bool\<close>), \<open>Varint32\<close> (the \<open>length\<close> of an \<open>Array\<close>, the \<open>data\<close> of
  an \<open>Id\<close>) and \<open>Id\<close> (the \<open>instance\<close> of an \<open>ObjectId\<close>, the tag of an \<open>Operation\<close>).
\<close>

definition Uint8_bytes :: "int \<Rightarrow> error + byte list" where
  "Uint8_bytes d = pack_B d"

definition Bool_bytes :: "int \<Rightarrow> error + byte list" where
  "Bool_bytes d = Uint8_bytes d"

definition Varint32_bytes :: "int \<Rightarrow> error + byte list" where
  "Varint32_bytes d = varint d"

definition Id_bytes :: "int \<Rightarrow> error + byte list" where
  "Id_bytes d = Varint32_bytes d"

text \<open>
  \<open>bytes(x)\<close>: the \<open>__bytes__\<close> of the class of \<open>x\<close>; TypeError on \<open>None\<close> and on a
  string (no encoding given).  The first argument stands for
  \<open>timegm(time.strptime(s, '%Y-%m-%dT%H:%M:%S%Z'))\<close>, of the standard library.
  \<open>bytes_join\<close> is \<open>b"".join([bytes(a) for a in data])\<close> and \<open>bytes_fields\<close> is the loop
  of \<open>GrapheneObject.__bytes__\<close> over \<open>self.data.items()\<close>.
\<close>

fun bytes_of :: "(string \<Rightarrow> error + int) \<Rightarrow> pyval \<Rightarrow> error + byte list"
  and bytes_join :: "(string \<Rightarrow> error + int) \<Rightarrow> pyval list \<Rightarrow> error + byte list"
  and bytes_fields :: "(string \<Rightarrow> error + int) \<Rightarrow> (string \<times> pyval) list \<Rightarrow> error + byte list"
where
  "bytes_of tp PyNone = Inl TypeError"
| "bytes_of tp (PyStr s) = Inl TypeError"
| "bytes_of tp (Uint8 d) = Uint8_bytes d"
| "bytes_of tp (Uint16 d) = pack_H d"
| "bytes_of tp (Uint32 d) = pack_I d"
| "bytes_of tp (Uint64 d) = pack_Q d"
| "bytes_of tp (Varint32 d) = Varint32_bytes d"
| "bytes_of tp (Int64 d) = pack_q d"
| "bytes_of tp (String d) = cat (varint (int (length d))) (Inr (utf8 d))"
| "bytes_of tp (Bytes d l) = cat (varint l) (Inr (utf8 d))"
| "bytes_of tp Void = Inr []"
| "bytes_of tp (Array ds) = cat (Varint32_bytes (int (length ds))) (bytes_join tp ds)"
| "bytes_of tp (PointInTime d) = bind_err (tp (d @ ''UTC'')) pack_I"
| "bytes_of tp (Signature d) = Inr d"
| "bytes_of tp (Bool d) = Bool_bytes d"
| "bytes_of tp (Set ds) = cat (Varint32_bytes (int (length ds))) (bytes_join tp ds)"
| "bytes_of tp (Optional d) =
     (case bytes_of tp d of
        Inl e \<Rightarrow> Inl e
      | Inr b \<Rightarrow> if b \<noteq> [] then cat (Bool_bytes 1) (bytes_of tp d)
                 else Bool_bytes 0)"
| "bytes_of tp (Static_variant d type_id) = cat (varint type_id) (bytes_of tp d)"
| "bytes_of tp (Id_obj d) = Id_bytes d"
| "bytes_of tp (Operation op name opId) = cat (Id_bytes opId) (bytes_of tp op)"
| "bytes_of tp (GrapheneObject cls None) = Inr []"
| "bytes_of tp (GrapheneObject cls (Some fs)) = bytes_fields tp fs"
| "bytes_of tp (ObjectId spc typ inst text) = Id_bytes inst"
| "bytes_of tp (Extern cls b) = Inr b"
| "bytes_join tp [] = Inr []"
| "bytes_join tp (a # as) = cat (bytes_of tp a) (bytes_join tp as)"
| "bytes_fields tp [] = Inr []"
| "bytes_fields tp ((name, value) # fs) =
     cat (case value of PyStr s \<Rightarrow> Inr (utf8 s) | _ \<Rightarrow> bytes_of tp value)
         (bytes_fields tp fs)"

section \<open>Registries\<close>

definition object_type :: "(string \<times> int) list" where
  "object_type =
    [(''null'', 0),
     (''base'', 1),
     (''account'', 2),
     (''asset'', 3),
     (''force_settlement'', 4),
     (''committee_member'', 5),
     (''witness'', 6),
     (''limit_order'', 7),
     (''call_order'', 8),
     (''custom'', 9),
     (''proposal'', 10),
     (''operation_history'', 11),
     (''withdraw_permission'', 12),
     (''vesting_balance'', 13),
     (''worker'', 14),
     (''balance'', 15),
     (''OBJECT_TYPE_COUNT'', 16)]"

definition operations :: "(string \<times> int) list" where
  "operations =
    [(''transfer'', 0),
     (''limit_order_create'', 1),
     (''limit_order_cancel'', 2),
     (''call_order_update'', 3),
     (''fill_order'', 4),
     (''account_create'', 5),
     (''account_update'', 6),
     (''account_whitelist'', 7),
     (''account_upgrade'', 8),
     (''account_transfer'', 9),
     (''asset_create'', 10),
     (''asset_update'', 11),
     (''asset_update_bitasset'', 12),
     (''asset_update_feed_producers'', 13),
     (''asset_issue'', 14),
     (''asset_reserve'', 15),
     (''asset_fund_fee_pool'', 16),
     (''asset_settle'', 17),
     (''asset_global_settle'', 18),
     (''asset_publish_feed'', 19),
     (''witness_create'', 20),
     (''witness_update'', 21),
     (''proposal_create'', 22),
     (''proposal_update'', 23),
     (''proposal_delete'', 24),
     (''withdraw_permission_create'', 25),
     (''withdraw_permission_update'', 26),
     (''withdraw_permission_claim'', 27),
     (''withdraw_permission_delete'', 28),
     (''committee_member_create'', 29),
     (''committee_member_update'', 30),
     (''committee_member_update_global_parameters'', 31),
     (''vesting_balance_create'', 32),
     (''vesting_balance_withdraw'', 33),
     (''worker_create'', 34),
     (''custom'', 35),
     (''assert'', 36),
     (''balance_claim'', 37),
     (''override_transfer'', 38),
     (''transfer_to_blind'', 39),
     (''blind_transfer'', 40),
     (''transfer_from_blind'', 41),
     (''asset_settle_cancel'', 42),
     (''asset_claim_fees'', 43)]"

definition known_chains :: "(string \<times> (string \<times> string) list) list" where
  "known_chains =
    [(''BTS'', [(''chain_id'', []), (''core_symbol'', []), (''prefix'', [])]),
     (''GPH'', [(''chain_id'', ''b8d1603965b3eb1acba27e62ff59f74efa3154d43a4188d381088ac7cdf35539''),
               (''core_symbol'', ''CORE''), (''prefix'', ''GPH'')])]"

text \<open>
  The \<open>chain\<close> argument of \<open>sign\<close> and \<open>Memo\<close>: a string, a dictionary (of strings), or a
  value of any other type.
\<close>

datatype chain_arg = ChainStr string | ChainDict "(string \<times> string) list" | ChainOther

text \<open>
  \<^verbatim>\<open>
  if isinstance(chain, str) and chain in known_chains:
      chain_params = known_chains[chain]
  elif isinstance(chain, dict):
      chain_params = chain
  else:
      raise Exception(msg)
  \<close>
\<close>

fun chain_params :: "string \<Rightarrow> chain_arg \<Rightarrow> error + (string \<times> string) list" where
  "chain_params msg (ChainStr c) =
     (case map_of known_chains c of Some ps \<Rightarrow> Inr ps | None \<Rightarrow> Inl (Exception msg))"
| "chain_params msg (ChainDict d) = Inr d"
| "chain_params msg ChainOther = Inl (Exception msg)"

section \<open>Operations and object ids\<close>

text \<open>\<open>type(x).__name__\<close>.\<close>

fun type_name :: "pyval \<Rightarrow> string" where
  "type_name PyNone = ''NoneType''"
| "type_name (PyStr s) = ''str''"
| "type_name (Uint8 d) = ''Uint8''"
| "type_name (Uint16 d) = ''Uint16''"
| "type_name (Uint32 d) = ''Uint32''"
| "type_name (Uint64 d) = ''Uint64''"
| "type_name (Varint32 d) = ''Varint32''"
| "type_name (Int64 d) = ''Int64''"
| "type_name (String d) = ''String''"
| "type_name (Bytes d l) = ''Bytes''"
| "type_name Void = ''Void''"
| "type_name (Array ds) = ''Array''"
| "type_name (PointInTime d) = ''PointInTime''"
| "type_name (Signature d) = ''Signature''"
| "type_name (Bool d) = ''Bool''"
| "type_name (Set ds) = ''Set''"
| "type_name (Optional d) = ''Optional''"
| "type_name (Static_variant d t) = ''Static_variant''"
| "type_name (Id_obj d) = ''Id''"
| "type_name (Operation op name opId) = ''Operation''"
| "type_name (GrapheneObject cls d) = cls"
| "type_name (ObjectId spc typ inst text) = ''ObjectId''"
| "type_name (Extern cls b) = cls"

text \<open>\<open>str.lower\<close> on code points below U+0100.\<close>

definition lower_char :: "char \<Rightarrow> char" where
  "lower_char c =
     (let n = of_char c :: nat
      in if (65 \<le> n \<and> n \<le> 90) \<or> (192 \<le> n \<and> n \<le> 222 \<and> n \<noteq> 215)
         then char_of (n + 32) else c)"

definition lower :: "string \<Rightarrow> string" where
  "lower s = map lower_char s"

text \<open>
  \<^verbatim>\<open>
  class Operation() :
      def __init__(self, op) :
          self.op = op
          self.name = type(self.op).__name__.lower()
          self.opId = operations[self.name]
  \<close>
\<close>

definition Operation_init :: "pyval \<Rightarrow> error + pyval" where
  "Operation_init op =
     (let name = lower (type_name op)
      in case map_of operations name of
           None \<Rightarrow> Inl KeyError
         | Some opId \<Rightarrow> Inr (Operation op name opId))"

text \<open>\<open>s.split(".")\<close>: the pieces between the dots, empty pieces included.\<close>

fun split_at :: "char \<Rightarrow> string \<Rightarrow> string \<Rightarrow> string list" where
  "split_at sep [] cur = [cur]"
| "split_at sep (x # xs) cur =
     (if x = sep then cur # split_at sep xs [] else split_at sep xs (cur @ [x]))"

definition str_split :: "string \<Rightarrow> char \<Rightarrow> string list" where
  "str_split s sep = split_at sep s []"

text \<open>
  The builtin \<open>int(s)\<close> on a string, as CPython 3.11 computes it: the white space that
  it drops on both sides is the ASCII white space (tab, line feed, vertical tab, form
  feed, carriage return, space) and, above ASCII, U+0085 and U+00A0, not the
  separators U+001C to U+001F; then comes an optional sign and, right after it, decimal
  digits, the first character being a digit, with single \<open>_\<close> allowed between two
  digits; a text of more than 4300 digits is refused (the default limit of the
  interpreter).  ValueError is \<open>None\<close>.
\<close>

definition is_space :: "char \<Rightarrow> bool" where
  "is_space c =
     (let n = of_char c :: nat
      in (9 \<le> n \<and> n \<le> 13) \<or> n = 32 \<or> n = 133 \<or> n = 160)"

definition strip :: "string \<Rightarrow> string" where
  "strip s = rev (dropWhile is_space (rev (dropWhile is_space s)))"

definition is_digit :: "char \<Rightarrow> bool" where
  "is_digit c = (let n = of_char c :: nat in 48 \<le> n \<and> n \<le> 57)"

text \<open>
  The scan of the digits: whether the character before was \<open>_\<close>, the value and the
  number of digits so far.
\<close>

fun digits_scan :: "string \<Rightarrow> bool \<Rightarrow> int \<Rightarrow> nat \<Rightarrow> (int \<times> nat) option" where
  "digits_scan [] underscore acc digits = (if underscore then None else Some (acc, digits))"
| "digits_scan (c # cs) underscore acc digits =
     (if c = CHR ''_'' then (if underscore then None else digits_scan cs True acc digits)
      else if is_digit c
      then digits_scan cs False (10 * acc + (of_char c - 48)) (Suc digits)
      else None)"

definition parse_digits :: "string \<Rightarrow> int option" where
  "parse_digits s =
     (case s of
        [] \<Rightarrow> None
      | c # cs \<Rightarrow>
          if is_digit c
          then (case digits_scan s False 0 0 of
                  None \<Rightarrow> None
                | Some (v, digits) \<Rightarrow> if digits > 4300 then None else Some v)
          else None)"

definition py_int :: "string \<Rightarrow> int option" where
  "py_int s =
     (case strip s of
        [] \<Rightarrow> None
      | c # cs \<Rightarrow>
          if c = CHR ''-'' then map_option uminus (parse_digits cs)
          else if c = CHR ''+'' then parse_digits cs
          else parse_digits (c # cs))"

text \<open>
  \<^verbatim>\<open>
  class ObjectId() :
      def __init__(self, object_str, type_verify=None) :
          if len(object_str.split(".")) == 3:
              space, type, id = object_str.split(".")
              self.space = int(space)
              self.type = int(type)
              self.instance = Id(int(id))
              self.Id = object_str
              if type_verify:
                  assert object_type[type_verify] == int(type), "Object id does not match object type!"
          else:
              raise Exception("Object id is invalid")
  \<close>
  \<open>type_verify\<close> is \<open>None\<close> or a string, and true in \<open>if type_verify\<close> when it is a
  string that is not empty.  The first argument stands for the builtin \<open>int\<close>.
\<close>

definition ObjectId_init ::
  "(string \<Rightarrow> int option) \<Rightarrow> string \<Rightarrow> string option \<Rightarrow> error + pyval" where
  "ObjectId_init to_int object_str type_verify =
     (case str_split object_str CHR ''.'' of
        [spc, typ, ident] \<Rightarrow>
          (case to_int spc of
             None \<Rightarrow> Inl ValueError
           | Some sp \<Rightarrow>
          (case to_int typ of
             None \<Rightarrow> Inl ValueError
           | Some ty \<Rightarrow>
          (case to_int ident of
             None \<Rightarrow> Inl ValueError
           | Some inst \<Rightarrow>
          (case type_verify of
             None \<Rightarrow> Inr (ObjectId sp ty inst object_str)
           | Some tv \<Rightarrow>
               if tv = [] then Inr (ObjectId sp ty inst object_str)
               else (case map_of object_type tv of
                       None \<Rightarrow> Inl KeyError
                     | Some t \<Rightarrow>
                         if t = ty then Inr (ObjectId sp ty inst object_str)
                         else Inl AssertionError)))))
      | _ \<Rightarrow> Inl (Exception ''Object id is invalid''))"


section \<open>Composite objects\<close>

text \<open>
  \<^verbatim>\<open>
  class Bytes():
      def __init__(self,d,length=None) :
          self.data   = d;
          if length :
              self.length = length
          else :
              self.length = len(self.data)
  \<close>
\<close>

definition Bytes_init :: "string \<Rightarrow> int option \<Rightarrow> pyval" where
  "Bytes_init d len =
     (case len of
        Some l \<Rightarrow> if l \<noteq> 0 then Bytes d l else Bytes d (int (length d))
      | None \<Rightarrow> Bytes d (int (length d)))"

text \<open>
  \<^verbatim>\<open>
  class Signed_Transaction(GrapheneObject) :
      def __init__(self, refNum, refPrefix, expiration, operations):
          super().__init__(OrderedDict([
                        ('ref_block_num', Uint16(refNum)),
                        ('ref_block_prefix', Uint32(refPrefix)),
                        ('expiration', PointInTime(expiration)),
                        ('operations', Array(operations)),
                        ('extensions', Set([])),
                        ('signatures', Void()),
                      ]))
  \<close>
\<close>

definition Signed_Transaction_data ::
  "int \<Rightarrow> int \<Rightarrow> string \<Rightarrow> pyval list \<Rightarrow> (string \<times> pyval) list" where
  "Signed_Transaction_data refNum refPrefix expiration ops =
     [(''ref_block_num'', Uint16 refNum),
      (''ref_block_prefix'', Uint32 refPrefix),
      (''expiration'', PointInTime expiration),
      (''operations'', Array ops),
      (''extensions'', Set []),
      (''signatures'', Void)]"

definition Signed_Transaction_init :: "int \<Rightarrow> int \<Rightarrow> string \<Rightarrow> pyval list \<Rightarrow> pyval" where
  "Signed_Transaction_init refNum refPrefix expiration ops =
     GrapheneObject ''Signed_Transaction''
       (Some (Signed_Transaction_data refNum refPrefix expiration ops))"

text \<open>
  \<^verbatim>\<open>
  class Asset(GrapheneObject) :
      def __init__(self, _amount, _asset_id):
          super().__init__(OrderedDict([
                         ('amount',   Int64(_amount)),
                         ('asset_id', ObjectId(_asset_id, "asset") )
                      ]))
  \<close>
  The first argument is the builtin \<open>int\<close> that \<open>ObjectId\<close> calls.
\<close>

definition Asset_init ::
  "(string \<Rightarrow> int option) \<Rightarrow> int \<Rightarrow> string \<Rightarrow> error + pyval" where
  "Asset_init to_int amount asset_id =
     bind_err (ObjectId_init to_int asset_id (Some ''asset'')) (\<lambda>oid.
       Inr (GrapheneObject ''Asset'' (Some [(''amount'', Int64 amount), (''asset_id'', oid)])))"

text \<open>
  \<^verbatim>\<open>
  class Memo(GrapheneObject) :
      def __init__(self, _from=None, _to=None, _nonce=None, _message=None, chain="BTS"):
          if _message :
              ...
              if "prefix" not in chain_params:
                  raise Exception("Memo() needs a 'prefix' in chain params!")
              prefix = chain_params["prefix"]
              super().__init__(OrderedDict([
                             ('from',    PublicKey(_from, prefix=prefix)),
                             ('to',      PublicKey(_to, prefix=prefix)),
                             ('nonce',   Uint64(_nonce)),
                             ('message', Bytes(_message))
                           ]))
          else :
              super().__init__(None)
  \<close>
  \<open>PublicKey\<close> is a class of the \<open>account\<close> module: the first argument stands for
  building one from a key and a prefix and taking its \<open>__bytes__\<close>.
\<close>

definition Memo_init ::
  "(string option \<Rightarrow> string \<Rightarrow> error + byte list) \<Rightarrow>
   string option \<Rightarrow> string option \<Rightarrow> int \<Rightarrow> string option \<Rightarrow> chain_arg \<Rightarrow> error + pyval" where
  "Memo_init PublicKey from to nonce message chain =
     (case message of
        None \<Rightarrow> Inr (GrapheneObject ''Memo'' None)
      | Some m \<Rightarrow>
          if m = [] then Inr (GrapheneObject ''Memo'' None)
          else
            bind_err (chain_params ''Memo() only takes a string or a dict as chain!'' chain) (\<lambda>ps.
              case map_of ps ''prefix'' of
                None \<Rightarrow> Inl (Exception ''Memo() needs a 'prefix' in chain params!'')
              | Some prefix \<Rightarrow>
                  bind_err (PublicKey from prefix) (\<lambda>f.
                  bind_err (PublicKey to prefix) (\<lambda>t.
                    Inr (GrapheneObject ''Memo''
                          (Some [(''from'', Extern ''PublicKey'' f),
                                 (''to'', Extern ''PublicKey'' t),
                                 (''nonce'', Uint64 nonce),
                                 (''message'', Bytes_init m None)]))))))"

text \<open>
  \<^verbatim>\<open>
  class Transfer(GrapheneObject) :
      def __init__(self, _feeObj, _from, _to, _amountObj, _memo=None):
          super().__init__(OrderedDict([
                        ('fee'       , _feeObj),
                        ('from'      , ObjectId(_from, "account")),
                        ('to'        , ObjectId(_to, "account")),
                        ('amount'    , _amountObj),
                        ('memo'      , Optional(_memo)),
                        ('extensions', Set([])),
                      ]))
  \<close>
  A call that leaves \<open>_memo\<close> out passes \<open>PyNone\<close>.  The first argument is the builtin
  \<open>int\<close> that \<open>ObjectId\<close> calls.
\<close>

definition Transfer_init ::
  "(string \<Rightarrow> int option) \<Rightarrow> pyval \<Rightarrow> string \<Rightarrow> string \<Rightarrow> pyval \<Rightarrow> pyval \<Rightarrow>
   error + pyval" where
  "Transfer_init to_int feeObj from to amountObj memo =
     bind_err (ObjectId_init to_int from (Some ''account'')) (\<lambda>f.
     bind_err (ObjectId_init to_int to (Some ''account'')) (\<lambda>t.
       Inr (GrapheneObject ''Transfer''
             (Some [(''fee'', feeObj),
                    (''from'', f),
                    (''to'', t),
                    (''amount'', amountObj),
                    (''memo'', Optional memo),
                    (''extensions'', Set [])]))))"

subsection \<open>The JSON mirror\<close>

text \<open>
  \<open>bool(x)\<close>: false for \<open>None\<close> and for the empty string; no class of the module defines
  \<open>__bool__\<close> or \<open>__len__\<close>, so each of their instances is true.
\<close>

fun truthy :: "pyval \<Rightarrow> bool" where
  "truthy PyNone = False"
| "truthy (PyStr s) = (s \<noteq> [])"
| "truthy v = True"

text \<open>\<open>Optional.isempty\<close>, of an \<open>Optional\<close> whose \<open>data\<close> is the argument: \<open>bool(self.data)\<close>.\<close>

definition isempty :: "pyval \<Rightarrow> bool" where
  "isempty d = truthy d"

text \<open>\<open>d[name] = v\<close> on an ordered dictionary: the key keeps its place, a new key goes last.\<close>

fun dict_set :: "'k \<Rightarrow> 'v \<Rightarrow> ('k \<times> 'v) list \<Rightarrow> ('k \<times> 'v) list" where
  "dict_set k v [] = [(k, v)]"
| "dict_set k v (p # ps) = (if fst p = k then (k, v) # ps else p # dict_set k v ps)"

text \<open>
  \<^verbatim>\<open>
  def __json__(self) :
      if self.data == None : return {}
      d = {} ## JSON output is *not* ordered
      for name, value in self.data.items():
          if isinstance(value, Optional) and value.isempty():
              continue
          try :
              d.update( { name : JsonObj(value) } )
          except :
              d.update( { name : str(value) } )
      return OrderedDict(d)
  \<close>
  The first argument stands for the rendering of one value, \<open>JsonObj(value)\<close> and, when
  that raises, \<open>str(value)\<close> (which may raise in its turn): the \<open>json\<close> library and the
  \<open>__str__\<close> methods.
\<close>

fun json_loop ::
  "(pyval \<Rightarrow> error + 'j) \<Rightarrow> (string \<times> pyval) list \<Rightarrow> (string \<times> 'j) list \<Rightarrow>
   error + (string \<times> 'j) list" where
  "json_loop render [] d = Inr d"
| "json_loop render ((name, value) # fs) d =
     (case value of
        Optional x \<Rightarrow>
          if isempty x then json_loop render fs d
          else (case render value of
                  Inl e \<Rightarrow> Inl e
                | Inr j \<Rightarrow> json_loop render fs (dict_set name j d))
      | _ \<Rightarrow>
          (case render value of
             Inl e \<Rightarrow> Inl e
           | Inr j \<Rightarrow> json_loop render fs (dict_set name j d)))"

definition GrapheneObject_json ::
  "(pyval \<Rightarrow> error + 'j) \<Rightarrow> (string \<times> pyval) list option \<Rightarrow> error + (string \<times> 'j) list" where
  "GrapheneObject_json render data =
     (case data of None \<Rightarrow> Inr [] | Some fs \<Rightarrow> json_loop render fs [])"


section \<open>Signing\<close>

subsection \<open>Library functions\<close>

text \<open>
  \<open>binascii.unhexlify\<close> on a string: ValueError on a character outside ASCII,
  \<open>binascii.Error\<close> on an odd number of characters or on one that is no hexadecimal digit.
\<close>

definition hex_val :: "char \<Rightarrow> nat option" where
  "hex_val c =
     (let n = of_char c :: nat
      in if 48 \<le> n \<and> n \<le> 57 then Some (n - 48)
         else if 97 \<le> n \<and> n \<le> 102 then Some (n - 87)
         else if 65 \<le> n \<and> n \<le> 70 then Some (n - 55)
         else None)"

fun unhex_pairs :: "string \<Rightarrow> error + byte list" where
  "unhex_pairs [] = Inr []"
| "unhex_pairs [a] = Inl BinasciiError"
| "unhex_pairs (a # b # rest) =
     (case (hex_val a, hex_val b) of
        (Some x, Some y) \<Rightarrow> bind_err (unhex_pairs rest) (\<lambda>bs. Inr (of_nat (16 * x + y) # bs))
      | _ \<Rightarrow> Inl BinasciiError)"

definition unhexlify :: "string \<Rightarrow> error + byte list" where
  "unhexlify s =
     (if \<exists>c \<in> set s. (of_char c :: nat) \<ge> 128 then Inl ValueError else unhex_pairs s)"

text \<open>Indexing a byte string with an index that is not negative: IndexError past the end.\<close>

definition index :: "byte list \<Rightarrow> int \<Rightarrow> error + int" where
  "index bs i =
     (if 0 \<le> i \<and> nat i < length bs then Inr (uint (bs ! nat i)) else Inl IndexError)"

text \<open>
  The secp256k1 parameters and the conversions of \<open>ecdsa.util\<close> between numbers and
  byte strings of the length of the order, 32 bytes, most significant byte first:
  \<open>number_to_string\<close> fails on a number that does not fit, \<open>sigencode_string\<close> is the two
  numbers side by side, \<open>sigdecode_string\<close> wants exactly 64 bytes, \<open>string_to_number\<close>
  reads a byte string that is not empty.
\<close>

definition curve_p :: int where
  "curve_p = 2 ^ 256 - 2 ^ 32 - 977"

definition curve_a :: int where
  "curve_a = 0"

definition curve_b :: int where
  "curve_b = 7"

definition order :: int where
  "order = 0xFFFFFFFFFFFFFFFFFFFFFFFFFFFFFFFEBAAEDCE6AF48A03BBFD25E8CD0364141"

definition be_int :: "byte list \<Rightarrow> int" where
  "be_int bs = foldl (\<lambda>acc b. acc * 256 + uint b) 0 bs"

definition number_to_string :: "int \<Rightarrow> error + byte list" where
  "number_to_string num =
     (if 0 \<le> num \<and> num < 2 ^ 256 then Inr (rev (le_bytes 32 num))
      else Inl (LibraryError ''number_to_string''))"

definition sigencode_string :: "int \<Rightarrow> int \<Rightarrow> error + byte list" where
  "sigencode_string r s = cat (number_to_string r) (number_to_string s)"

definition sigdecode_string :: "byte list \<Rightarrow> error + (int \<times> int)" where
  "sigdecode_string signature =
     (if length signature = 64
      then Inr (be_int (take 32 signature), be_int (drop 32 signature))
      else Inl AssertionError)"

definition string_to_number :: "byte list \<Rightarrow> error + int" where
  "string_to_number bs = (if bs = [] then Inl ValueError else Inr (be_int bs))"

text \<open>
  What the module takes from outside: SHA-256, the decoding of a private key in WIF
  (\<open>bytes(PrivateKey(wif))\<close>, of the \<open>account\<close> module), and of the \<open>ecdsa\<close> library the
  signing key (\<open>'sk\<close>), the points of the curve (\<open>'pt\<close>, a verifying key being its public
  point) and their arithmetic.  \<open>sign_digest\<close> draws a fresh random nonce at each call:
  its third argument is the number of the call, \<open>cnt\<close> in \<open>sign\<close>, and its result the
  DER signature of that call.
\<close>

record ('sk, 'pt) ecdsa =
  sha256 :: "byte list \<Rightarrow> byte list"
  PrivateKey_bytes :: "string \<Rightarrow> error + byte list"
  SigningKey_from_string :: "byte list \<Rightarrow> error + 'sk"
  sign_digest :: "'sk \<Rightarrow> byte list \<Rightarrow> nat \<Rightarrow> error + byte list"
  sigdecode_der :: "byte list \<Rightarrow> error + (int \<times> int)"
  get_verifying_key :: "'sk \<Rightarrow> 'pt"
  to_string :: "'pt \<Rightarrow> byte list"
  square_root_mod_prime :: "int \<Rightarrow> int \<Rightarrow> error + int"
  Point :: "int \<Rightarrow> int \<Rightarrow> error + 'pt"
  generator :: "'pt"
  point_mul :: "int \<Rightarrow> 'pt \<Rightarrow> 'pt"
  point_add :: "'pt \<Rightarrow> 'pt \<Rightarrow> 'pt"
  inverse_mod :: "int \<Rightarrow> int \<Rightarrow> int"
  verify_digest :: "'pt \<Rightarrow> byte list \<Rightarrow> byte list \<Rightarrow> error + bool"

subsection \<open>Recovery of the public key\<close>

text \<open>
  \<^verbatim>\<open>
  def recover_public_key(self, digest, signature, i):
      curve = ecdsa.SECP256k1.curve
      G     = ecdsa.SECP256k1.generator
      order = ecdsa.SECP256k1.order
      isYOdd      = i % 2
      isSecondKey = i // 2
      yp = 0 if (isYOdd) == 0 else 1
      r, s = ecdsa.util.sigdecode_string(signature, order)
      x = r + isSecondKey * order
      alpha = ((x * x * x) + (curve.a() * x) + curve.b()) % curve.p()
      beta = ecdsa.numbertheory.square_root_mod_prime(alpha, curve.p())
      if (beta - yp) % 2 == 0 :
          y = beta
      else :
          y = curve.p() - beta
      R = ecdsa.ellipticcurve.Point(curve, x, y, order)
      e = ecdsa.util.string_to_number(digest)
      Q = ecdsa.numbertheory.inverse_mod(r, order) * (s * R + (-e % order) * G)
      if not ecdsa.VerifyingKey.from_public_point(Q, curve=ecdsa.SECP256k1).verify_digest(signature, digest, sigdecode=ecdsa.util.sigdecode_string) :
          return None
      return ecdsa.VerifyingKey.from_public_point(Q, curve=ecdsa.SECP256k1)
  \<close>
\<close>

definition recover_public_key ::
  "('sk, 'pt) ecdsa \<Rightarrow> byte list \<Rightarrow> byte list \<Rightarrow> int \<Rightarrow> error + 'pt option" where
  "recover_public_key E dig signature i =
     (let isYOdd = i mod 2;
          isSecondKey = i div 2;
          yp = (if isYOdd = 0 then 0 else 1 :: int)
      in bind_err (sigdecode_string signature) (\<lambda>(r, s).
           let x = r + isSecondKey * order;
               alpha = ((x * x * x) + (curve_a * x) + curve_b) mod curve_p
           in bind_err (square_root_mod_prime E alpha curve_p) (\<lambda>beta.
                let y = (if (beta - yp) mod 2 = 0 then beta else curve_p - beta)
                in bind_err (Point E x y) (\<lambda>R.
                   bind_err (string_to_number dig) (\<lambda>e.
                     let Q = point_mul E (inverse_mod E r order)
                               (point_add E (point_mul E s R)
                                  (point_mul E ((- e) mod order) (generator E)))
                     in bind_err (verify_digest E Q signature dig) (\<lambda>ok.
                          if \<not> ok then Inr None else Inr (Some Q)))))))"

text \<open>
  \<^verbatim>\<open>
  def recoverPubkeyParameter(self, digest, signature, pubkey) :
      for i in range(0,4) :
          p = self.recover_public_key(digest, signature, i)
          if p.to_string() == pubkey.to_string() :
              return i
      return None
  \<close>
  \<open>p.to_string()\<close> on the \<open>None\<close> that \<open>recover_public_key\<close> can return is an
  AttributeError.
\<close>

fun recover_loop ::
  "('sk, 'pt) ecdsa \<Rightarrow> byte list \<Rightarrow> byte list \<Rightarrow> 'pt \<Rightarrow> int list \<Rightarrow> error + int option" where
  "recover_loop E dig signature pubkey [] = Inr None"
| "recover_loop E dig signature pubkey (i # rest) =
     (case recover_public_key E dig signature i of
        Inl e \<Rightarrow> Inl e
      | Inr None \<Rightarrow> Inl AttributeError
      | Inr (Some p) \<Rightarrow>
          if to_string E p = to_string E pubkey then Inr (Some i)
          else recover_loop E dig signature pubkey rest)"

definition recoverPubkeyParameter ::
  "('sk, 'pt) ecdsa \<Rightarrow> byte list \<Rightarrow> byte list \<Rightarrow> 'pt \<Rightarrow> error + int option" where
  "recoverPubkeyParameter E dig signature pubkey =
     recover_loop E dig signature pubkey [0, 1, 2, 3]"

subsection \<open>\<open>Signed_Transaction.sign\<close>\<close>

text \<open>
  One round of the \<open>while 1\<close> loop, \<open>cnt\<close> already incremented: an exception, \<open>None\<close>
  when the signature is not canonical and the loop goes round again, or the values of
  \<open>i\<close> and \<open>signature\<close> at the \<open>break\<close>.
  \<^verbatim>\<open>
  sigder    = sk.sign_digest(self.digest, sigencode=ecdsa.util.sigencode_der)
  r, s = ecdsa.util.sigdecode_der(sigder, sk.curve.generator.order())
  signature = ecdsa.util.sigencode_string(r, s, sk.curve.generator.order())
  lenR = sigder[3]
  lenS = sigder[5+lenR]
  if lenR is 32 and lenS is 32:
      i = self.recoverPubkeyParameter(self.digest, signature, sk.get_verifying_key())
      i += 4   # compressed
      i += 27  # compact
      break
  \<close>
  \<open>i += 4\<close> on the \<open>None\<close> that \<open>recoverPubkeyParameter\<close> can return is a TypeError.  On
  these small integers \<open>is\<close> is equality.
\<close>

definition sign_attempt ::
  "('sk, 'pt) ecdsa \<Rightarrow> 'sk \<Rightarrow> byte list \<Rightarrow> nat \<Rightarrow> error + (int \<times> byte list) option" where
  "sign_attempt E sk dig cnt =
     bind_err (sign_digest E sk dig cnt) (\<lambda>sigder.
     bind_err (sigdecode_der E sigder) (\<lambda>(r, s).
     bind_err (sigencode_string r s) (\<lambda>signature.
     bind_err (index sigder 3) (\<lambda>lenR.
     bind_err (index sigder (5 + lenR)) (\<lambda>lenS.
       if lenR = 32 \<and> lenS = 32
       then bind_err (recoverPubkeyParameter E dig signature (get_verifying_key E sk)) (\<lambda>i.
              case i of
                None \<Rightarrow> Inl TypeError
              | Some i \<Rightarrow> Inr (Some (i + 4 + 27, signature)))
       else Inr None)))))"

text \<open>
  \<^verbatim>\<open>
  cnt   = 0
  i     = 0
  while 1 :
      cnt += 1
      ...
  \<close>
  The loop has no bound: \<open>None\<close> is a search that never ends.  The message printed
  every tenth round changes nothing in the result and is left out.
\<close>

partial_function (option) sign_search ::
  "('sk, 'pt) ecdsa \<Rightarrow> 'sk \<Rightarrow> byte list \<Rightarrow> nat \<Rightarrow> (error + int \<times> byte list) option" where
  "sign_search E sk dig cnt =
     (case sign_attempt E sk dig (cnt + 1) of
        Inl e \<Rightarrow> Some (Inl e)
      | Inr None \<Rightarrow> sign_search E sk dig (cnt + 1)
      | Inr (Some found) \<Rightarrow> Some (Inr found))"

text \<open>
  \<^verbatim>\<open>
  sigs = []
  for wif in self.privkeys :
      p     = bytes(PrivateKey(wif))
      sk    = ecdsa.SigningKey.from_string(p, curve=ecdsa.SECP256k1)
      cnt   = 0
      i     = 0
      while 1 : ...
      sigstr = struct.pack("<B", i)
      sigstr += signature
      sigs.append( Signature(sigstr) )
  \<close>
\<close>

fun sign_keys ::
  "('sk, 'pt) ecdsa \<Rightarrow> byte list \<Rightarrow> string list \<Rightarrow> pyval list \<Rightarrow> (error + pyval list) option" where
  "sign_keys E dig [] sigs = Some (Inr sigs)"
| "sign_keys E dig (wif # wifs) sigs =
     (case PrivateKey_bytes E wif of
        Inl e \<Rightarrow> Some (Inl e)
      | Inr p \<Rightarrow>
     (case SigningKey_from_string E p of
        Inl e \<Rightarrow> Some (Inl e)
      | Inr sk \<Rightarrow>
     (case sign_search E sk dig 0 of
        None \<Rightarrow> None
      | Some (Inl e) \<Rightarrow> Some (Inl e)
      | Some (Inr (i, signature)) \<Rightarrow>
     (case cat (pack_B i) (Inr signature) of
        Inl e \<Rightarrow> Some (Inl e)
      | Inr sigstr \<Rightarrow> sign_keys E dig wifs (sigs @ [Signature sigstr])))))"

text \<open>
  \<open>[self.privkeys.append(item) for item in wifkeys if item not in self.privkeys]\<close>: each
  key once, in the order of its first occurrence.
\<close>

definition unique :: "'a list \<Rightarrow> 'a list" where
  "unique xs = fold (\<lambda>item acc. if item \<notin> set acc then acc @ [item] else acc) xs []"

text \<open>
  The attributes of a \<open>Signed_Transaction\<close>: \<open>data\<close>, set by \<open>__init__\<close>, and those that
  \<open>sign\<close> sets, \<open>None\<close> standing for one that is not set yet.
\<close>

record tx =
  tx_data :: "(string \<times> pyval) list"
  tx_privkeys :: "string list option"
  tx_chainid :: "string option"
  tx_message :: "byte list option"
  tx_digest :: "byte list option"

definition new_tx :: "int \<Rightarrow> int \<Rightarrow> string \<Rightarrow> pyval list \<Rightarrow> tx" where
  "new_tx refNum refPrefix expiration ops =
     \<lparr>tx_data = Signed_Transaction_data refNum refPrefix expiration ops,
      tx_privkeys = None, tx_chainid = None, tx_message = None, tx_digest = None\<rparr>"

text \<open>
  \<^verbatim>\<open>
  def sign(self, wifkeys, chain="BTS") :
      if isinstance(chain, str) and chain in known_chains:
          chain_params = known_chains[chain]
      elif isinstance(chain, dict):
          chain_params = chain
      else:
          raise Exception("sign() only takes a string or a dict as chain!")
      if "chain_id" not in chain_params:
          raise Exception("sign() needs a 'chain_id' in chain params!")
      self.privkeys = []
      [self.privkeys.append(item) for item in wifkeys if item not in self.privkeys]
      self.chainid  = chain_params["chain_id"]
      self.message  = unhexlify(self.chainid) + bytes(self)
      self.digest   = hashlib.sha256(self.message).digest()
      sigs = []
      for wif in self.privkeys : ...
      self.data["signatures"] = Array(sigs)
      return self
  \<close>
  The result is the exception raised, if any, and the object as the call leaves it;
  \<open>None\<close> when the call does not return.
\<close>

definition sign ::
  "('sk, 'pt) ecdsa \<Rightarrow> (string \<Rightarrow> error + int) \<Rightarrow> string list \<Rightarrow> chain_arg \<Rightarrow> tx \<Rightarrow>
   (error option \<times> tx) option" where
  "sign E tp wifkeys chain self =
     (case chain_params ''sign() only takes a string or a dict as chain!'' chain of
        Inl e \<Rightarrow> Some (Some e, self)
      | Inr ps \<Rightarrow>
     (case map_of ps ''chain_id'' of
        None \<Rightarrow> Some (Some (Exception ''sign() needs a 'chain_id' in chain params!''), self)
      | Some cid \<Rightarrow>
          let self1 = self\<lparr>tx_privkeys := Some (unique wifkeys), tx_chainid := Some cid\<rparr>
          in (case cat (unhexlify cid) (bytes_fields tp (tx_data self1)) of
                Inl e \<Rightarrow> Some (Some e, self1)
              | Inr msg \<Rightarrow>
                  let self2 = self1\<lparr>tx_message := Some msg, tx_digest := Some (sha256 E msg)\<rparr>
                  in (case sign_keys E (sha256 E msg) (unique wifkeys) [] of
                        None \<Rightarrow> None
                      | Some (Inl e) \<Rightarrow> Some (Some e, self2)
                      | Some (Inr sigs) \<Rightarrow>
                          Some (None, self2\<lparr>tx_data :=
                                  dict_set ''signatures'' (Array sigs) (tx_data self2)\<rparr>)))))"


section \<open>Reading bytes as text\<close>

text \<open>
  The string whose characters have the code points of the given bytes (what
  \<open>b.decode('latin-1')\<close> returns): the form in which \<open>varintdecode\<close> can read a byte
  string.
\<close>

definition latin1 :: "byte list \<Rightarrow> string" where
  "latin1 bs = map (\<lambda>b. char_of (uint b)) bs"

section \<open>The chain descriptors that \<open>sign\<close> refuses\<close>

text \<open>
  In the words of the specification: the chain argument is neither the name of a known
  chain nor a mapping, or the parameters it resolves to have no entry \<open>chain_id\<close>.
\<close>

definition resolved_chain :: "chain_arg \<Rightarrow> (string \<times> string) list option" where
  "resolved_chain chain =
     (case chain of
        ChainStr c \<Rightarrow> map_of known_chains c
      | ChainDict d \<Rightarrow> Some d
      | ChainOther \<Rightarrow> None)"

definition bad_chain_descriptor :: "chain_arg \<Rightarrow> bool" where
  "bad_chain_descriptor chain =
     (case resolved_chain chain of
        None \<Rightarrow> True
      | Some ps \<Rightarrow> ''chain_id'' \<notin> fst ` set ps)"

section \<open>Sample values\<close>

text \<open>
  Two values of \<open>timegm(time.strptime(s, '%Y-%m-%dT%H:%M:%S%Z'))\<close>, the epoch and the
  first second of 2016; any other string is taken as malformed.
\<close>

definition sample_clock :: "string \<Rightarrow> error + int" where
  "sample_clock s =
     (if s = ''1970-01-01T00:00:00UTC'' then Inr 0
      else if s = ''2016-01-01T00:00:00UTC'' then Inr 1451606400
      else Inl ValueError)"

text \<open>\<open>Asset(amount, "1.3.0")\<close>.\<close>

definition core_asset :: "int \<Rightarrow> pyval" where
  "core_asset amount =
     GrapheneObject ''Asset''
       (Some [(''amount'', Int64 amount), (''asset_id'', ObjectId 1 3 0 ''1.3.0'')])"

text \<open>
  \<open>Transfer(Asset(10, "1.3.0"), "1.2.7", "1.2.128", Asset(5, "1.3.0"), memo)\<close>, as
  \<open>__init__\<close> leaves it.
\<close>

definition sample_transfer :: "pyval \<Rightarrow> pyval" where
  "sample_transfer memo =
     GrapheneObject ''Transfer''
       (Some [(''fee'', core_asset 10),
              (''from'', ObjectId 1 2 7 ''1.2.7''),
              (''to'', ObjectId 1 2 128 ''1.2.128''),
              (''amount'', core_asset 5),
              (''memo'', Optional memo),
              (''extensions'', Set [])])"

text \<open>A second operation body, with one field.\<close>

definition sample_custom :: pyval where
  "sample_custom = GrapheneObject ''Custom'' (Some [(''id'', Uint16 1)])"

text \<open>The DER form of a signature, from the content bytes of its two integers.\<close>

definition der_pair :: "byte list \<Rightarrow> byte list \<Rightarrow> byte list" where
  "der_pair R S =
     [0x30, of_nat (4 + length R + length S), 0x02, of_nat (length R)] @ R @
     [0x02, of_nat (length S)] @ S"

text \<open>Reading the two integers back from that form.\<close>

definition der_read :: "byte list \<Rightarrow> error + (int \<times> int)" where
  "der_read sigder =
     bind_err (index sigder 3) (\<lambda>lenR.
     bind_err (index sigder (5 + lenR)) (\<lambda>lenS.
       Inr (be_int (take (nat lenR) (drop 4 sigder)),
            be_int (take (nat lenS) (drop (6 + nat lenR) sigder)))))"

text \<open>
  A stand-in for the libraries, to run \<open>sign\<close> on.  A signing key is a number and is its
  own verifying key; a point is a number too.  Hashing keeps the first 32 bytes of the
  message.  The first signature drawn for a digest has an \<open>r\<close> of 33 bytes in DER,
  the later ones an \<open>r\<close> and an \<open>s\<close> of 32 bytes.  The point built from \<open>x\<close> and \<open>y\<close> is
  the recovery index that \<open>x\<close> and \<open>y\<close> come from, when \<open>r\<close> is even, and a number
  from 4 on when \<open>r\<close> is odd; the arithmetic leaves it as it is.  So the key recovered
  at index \<open>i\<close> from an even \<open>r\<close> is \<open>i\<close>, and no key below 4 is recovered from an odd
  one.
\<close>

definition stub_ecdsa :: "(int, int) ecdsa" where
  "stub_ecdsa =
     \<lparr>sha256 = (\<lambda>m. take 32 (m @ replicate 32 0)),
      PrivateKey_bytes = (\<lambda>wif. if wif = [] then Inl ValueError else Inr (utf8 wif)),
      SigningKey_from_string = (\<lambda>p. Inr (int (length p))),
      sign_digest = (\<lambda>sk dig cnt.
         Inr (if cnt < 2 then der_pair (0 # replicate 32 0x80) (replicate 32 1)
              else der_pair (replicate 32 2) (replicate 32 1))),
      sigdecode_der = der_read,
      get_verifying_key = (\<lambda>sk. sk),
      to_string = (\<lambda>P. [word_of_int P]),
      square_root_mod_prime = (\<lambda>a p. Inr 0),
      Point = (\<lambda>x y. Inr (y mod 2 + 2 * (if x \<ge> order then 1 else 0)
                           + 4 * ((x mod order) mod 2))),
      generator = 0,
      point_mul = (\<lambda>k P. P),
      point_add = (\<lambda>P Q. P),
      inverse_mod = (\<lambda>a m. 1),
      verify_digest = (\<lambda>Q signature dig. Inr True)\<rparr>"

text \<open>
  The same, but the first signature drawn is canonical with an odd \<open>r\<close>, from which the
  signer's key is not recovered, and the second one with an even \<open>r\<close>.
\<close>

definition stub_ecdsa_odd_first :: "(int, int) ecdsa" where
  "stub_ecdsa_odd_first =
     stub_ecdsa\<lparr>sign_digest := (\<lambda>sk dig cnt.
         Inr (if cnt < 2 then der_pair (replicate 32 3) (replicate 32 1)
              else der_pair (replicate 32 2) (replicate 32 1)))\<rparr>"

text \<open>A transaction with the sample transfer (and an empty memo) as its only operation.\<close>

definition sample_tx :: tx where
  "sample_tx =
     new_tx 34294 3707022213 ''2016-01-01T00:00:00''
       [Operation (sample_transfer (GrapheneObject ''Memo'' None)) ''transfer'' 0]"

text \<open>Its wire bytes, and the identifier of the chain \<open>GPH\<close> in front of them.\<close>

definition sample_body :: "byte list" where
  "sample_body =
     [0xF6, 0x85, 0x85, 0xAB, 0xF4, 0xDC, 0x80, 0xC1, 0x85, 0x56, 1,
      0, 10,0,0,0,0,0,0,0,0, 7, 0x80,1, 5,0,0,0,0,0,0,0,0, 0, 0, 0]"

definition sample_chain_id :: "byte list" where
  "sample_chain_id =
     [0xb8, 0xd1, 0x60, 0x39, 0x65, 0xb3, 0xeb, 0x1a, 0xcb, 0xa2, 0x7e, 0x62, 0xff, 0x59,
      0xf7, 0x4e, 0xfa, 0x31, 0x54, 0xd4, 0x3a, 0x41, 0x88, 0xd3, 0x81, 0x08, 0x8a, 0xc7,
      0xcd, 0xf3, 0x55, 0x39]"

text \<open>
  The sample transaction after \<open>sign\<close>, with the stand-in library, the keys \<open>K\<close> and \<open>KK\<close>
  and the chain \<open>GPH\<close>.
\<close>

definition signed_sample_tx :: tx where
  "signed_sample_tx =
     sample_tx\<lparr>tx_privkeys := Some [''K'', ''KK''],
       tx_chainid := Some ''b8d1603965b3eb1acba27e62ff59f74efa3154d43a4188d381088ac7cdf35539'',
       tx_message := Some (sample_chain_id @ sample_body),
       tx_digest := Some sample_chain_id,
       tx_data := dict_set ''signatures''
          (Array [Signature (32 # replicate 32 2 @ replicate 32 1),
                  Signature (33 # replicate 32 2 @ replicate 32 1)])
          (tx_data sample_tx)\<rparr>"


section \<open>Basic facts\<close>

lemma bind_err_simps [simp]:
  "bind_err (Inl e) f = Inl e"
  "bind_err (Inr x) f = f x"
  by (simp_all add: bind_err_def)

lemma cat_simps [simp]:
  "cat (Inl e) b = Inl e"
  "cat (Inr x) (Inl e) = Inl e"
  "cat (Inr x) (Inr y) = Inr (x @ y)"
  by (simp_all add: cat_def)

subsection \<open>Varint\<close>

lemma low7: "(n AND 0x7f) = n mod (128::int)"
proof -
  have "n AND 0x7f = take_bit 7 n"
    by (simp add: take_bit_eq_mask mask_eq_exp_minus_1)
  then show ?thesis
    by (simp add: take_bit_eq_mod)
qed

lemma cont_range:
  "0 \<le> ((n::int) AND 0x7f) OR 0x80"
  "((n::int) AND 0x7f) OR 0x80 < 256"
proof -
  have a: "0 \<le> n AND 0x7f" "n AND 0x7f < 128"
    by (simp_all add: low7)
  show "0 \<le> (n AND 0x7f) OR 0x80"
    using a by simp
  have "(n AND 0x7f) OR 0x80 < 2 ^ 8"
    by (rule OR_upper) (use a in simp_all)
  then show "(n AND 0x7f) OR 0x80 < 256"
    by simp
qed

lemma cont_low: "(((n::int) AND 0x7f) OR 0x80) AND 0x7f = n AND 0x7f"
proof -
  have "(128::int) AND 127 = 0"
    by simp
  then show ?thesis
    by (simp add: bit.conj_disj_distrib2 and.assoc)
qed

lemma cont_high: "(((n::int) AND 0x7f) OR 0x80) AND 0x80 = 0x80"
  by (simp add: bit.conj_disj_distrib2 and.assoc)

lemma small_low: "0 \<le> n \<Longrightarrow> n < 128 \<Longrightarrow> (n::int) AND 0x7f = n"
  by (simp add: low7)

lemma small_high: "0 \<le> n \<Longrightarrow> n < 128 \<Longrightarrow> (n::int) AND 0x80 = 0"
proof -
  assume a: "0 \<le> n" "n < 128"
  have "n AND 0x80 = (n AND 0x7f) AND 0x80"
    using a by (simp add: small_low)
  also have "\<dots> = n AND (0x7f AND 0x80)"
    by (simp only: and.assoc)
  also have "\<dots> = 0"
    by simp
  finally show ?thesis .
qed

lemma regroup:
  "push_bit shift ((n::int) AND 0x7f) OR push_bit (shift + 7) (drop_bit 7 n) = push_bit shift n"
proof -
  have "(n AND 0x7f) OR push_bit 7 (drop_bit 7 n) = n"
  proof -
    have "n AND 0x7f = take_bit 7 n"
      by (simp add: take_bit_eq_mask mask_eq_exp_minus_1)
    then show ?thesis
      by (simp only:) (rule bit_eqI, auto simp: bit_simps, metis le_add_diff_inverse linorder_not_less)
  qed
  then show ?thesis
    by (metis push_bit_or push_bit_push_bit add.commute)
qed

text \<open>On a number that is not negative the encoder returns, and returns at least one byte.\<close>

lemma varint_loop_ok: "0 \<le> n \<Longrightarrow> \<exists>bs. bs \<noteq> [] \<and> varint_loop n data = Inr (data @ bs)"
proof (induction n data rule: varint_loop.induct)
  case (1 n data)
  show ?case
  proof (cases "n \<ge> 0x80")
    case True
    have "0 \<le> drop_bit 7 n"
      using 1(2) by simp
    from 1(1)[OF True _ this] cont_range[of n] True show ?thesis
      by (subst varint_loop.simps) (auto simp: bytes_of_int1_def)
  next
    case False
    then show ?thesis
      using 1(2) by (subst varint_loop.simps) (auto simp: bytes_of_int1_def)
  qed
qed

lemma varint_ok: "0 \<le> n \<Longrightarrow> \<exists>bs. bs \<noteq> [] \<and> varint n = Inr bs"
  using varint_loop_ok[of n "[]"] by (simp add: varint_def)

lemma varint_small: "0 \<le> n \<Longrightarrow> n < 128 \<Longrightarrow> varint n = Inr [word_of_int n]"
  by (simp add: varint_def varint_loop.simps bytes_of_int1_def)

lemma varint_300: "varint 300 = Inr [0xAC, 0x02]"
  by (simp add: varint_def varint_loop.simps bytes_of_int1_def)

text \<open>\<open>ord\<close> fails on the first item of a byte string.\<close>

lemma varintdecode_bytes: "bs \<noteq> [] \<Longrightarrow> varintdecode (BytesObj bs) = Inl TypeError"
  by (cases bs) (simp_all add: varintdecode_def)

text \<open>
  The decoding loop itself inverts the encoder: read as text, the encoding of \<open>n\<close>
  decodes to \<open>n\<close>.
\<close>

lemma ord_latin1:
  "0 \<le> x \<Longrightarrow> x < 256 \<Longrightarrow> ord (CharItem (char_of (uint (word_of_int x :: byte)))) = Inr x"
  by (simp add: uint_word_of_int take_bit_eq_mod)

lemma varint_loop_decodes:
  "0 \<le> n \<Longrightarrow> varint_loop n data = Inr r \<Longrightarrow>
   \<exists>bs. r = data @ bs \<and>
        (\<forall>shift acc. varintdecode_loop (items (StrObj (latin1 bs))) shift acc
                        = Inr (acc OR push_bit shift n))"
proof (induction n data rule: varint_loop.induct)
  case (1 n data)
  show ?case
  proof (cases "n \<ge> 0x80")
    case True
    let ?b = "word_of_int ((n AND 0x7f) OR 0x80) :: byte"
    have b: "bytes_of_int1 ((n AND 0x7f) OR 0x80) = Inr [?b]"
      using cont_range[of n] by (simp add: bytes_of_int1_def)
    have nn: "0 \<le> drop_bit 7 n"
      using 1(2) by simp
    have "varint_loop (drop_bit 7 n) (data @ [?b]) = Inr r"
      using 1(3) True b by (subst (asm) varint_loop.simps) simp
    from 1(1)[OF True b nn this] obtain bs where
      r: "r = (data @ [?b]) @ bs" and
      d: "\<And>shift acc. varintdecode_loop (items (StrObj (latin1 bs))) shift acc
                          = Inr (acc OR push_bit shift (drop_bit 7 n))"
      by blast
    have o: "ord (CharItem (char_of (uint ?b))) = Inr ((n AND 0x7f) OR 0x80)"
      using cont_range[of n] by (rule ord_latin1)
    have "varintdecode_loop (items (StrObj (latin1 (?b # bs)))) shift acc
          = Inr (acc OR push_bit shift n)" for shift acc
    proof -
      have "varintdecode_loop (items (StrObj (latin1 (?b # bs)))) shift acc
            = varintdecode_loop (CharItem (char_of (uint ?b)) # items (StrObj (latin1 bs))) shift acc"
        by (simp add: latin1_def)
      also have "\<dots> = varintdecode_loop (items (StrObj (latin1 bs))) (shift + 7)
                          (acc OR push_bit shift (n AND 0x7f))"
        by (simp only: varintdecode_loop.simps o sum.case Let_def cont_low cont_high) simp
      also have "\<dots> = Inr ((acc OR push_bit shift (n AND 0x7f))
                              OR push_bit (shift + 7) (drop_bit 7 n))"
        by (rule d)
      also have "\<dots> = Inr (acc OR push_bit shift n)"
        by (simp only: or.assoc regroup)
      finally show ?thesis .
    qed
    with r show ?thesis
      by (intro exI[of _ "?b # bs"]) simp
  next
    case False
    have b: "bytes_of_int1 n = Inr [word_of_int n]"
      using False 1(2) by (simp add: bytes_of_int1_def)
    have r: "r = data @ [word_of_int n]"
      using 1(3) False b by (subst (asm) varint_loop.simps) simp
    have "varintdecode_loop (items (StrObj (latin1 [word_of_int n :: byte]))) shift acc
          = Inr (acc OR push_bit shift n)" for shift acc
    proof -
      have o: "ord (CharItem (char_of (uint (word_of_int n :: byte)))) = Inr n"
        using False 1(2) by (intro ord_latin1) simp_all
      have "varintdecode_loop (items (StrObj (latin1 [word_of_int n :: byte]))) shift acc
            = varintdecode_loop [CharItem (char_of (uint (word_of_int n :: byte)))] shift acc"
        by (simp add: latin1_def)
      also have "\<dots> = Inr (acc OR push_bit shift n)"
        using False 1(2)
        by (simp only: varintdecode_loop.simps o sum.case Let_def) (simp add: small_low small_high)
      finally show ?thesis .
    qed
    with r show ?thesis
      by (intro exI[of _ "[word_of_int n]"]) simp
  qed
qed

lemma varintdecode_text_of_varint:
  "0 \<le> n \<Longrightarrow> varint n = Inr bs \<Longrightarrow> varintdecode (StrObj (latin1 bs)) = Inr n"
  using varint_loop_decodes[of n "[]" bs] by (auto simp: varint_def varintdecode_def)

lemma varint_0: "varint 0 = Inr [0]"
  by (simp add: varint_small)

lemma varint_128: "varint 128 = Inr [0x80, 0x01]"
  by (simp add: varint_def varint_loop.simps bytes_of_int1_def)

subsection \<open>Fixed-width integers\<close>

lemma pack_H_ok: "0 \<le> d \<Longrightarrow> d < 2 ^ 16 \<Longrightarrow> pack_H d = Inr (le_bytes 2 d)"
  by (simp add: pack_H_def pack_unsigned_def)

lemma pack_I_ok: "0 \<le> d \<Longrightarrow> d < 2 ^ 32 \<Longrightarrow> pack_I d = Inr (le_bytes 4 d)"
  by (simp add: pack_I_def pack_unsigned_def)

lemma pack_B_0_1: "pack_B 0 = Inr [0]" "pack_B 1 = Inr [1]"
  by (simp_all add: pack_B_def pack_unsigned_def)

lemma Bool_bytes_0_1: "Bool_bytes 0 = Inr [0]" "Bool_bytes 1 = Inr [1]"
  by (simp_all add: Bool_bytes_def Uint8_bytes_def pack_B_0_1)

subsection \<open>Arrays and optionals\<close>

text \<open>The elements of an array are written one after the other, in their order.\<close>

lemma bytes_join_concat:
  "list_all2 (\<lambda>a b. bytes_of tp a = Inr b) xs bs \<Longrightarrow> bytes_join tp xs = Inr (concat bs)"
  by (induction xs bs rule: list_all2_induct) simp_all

lemma bytes_join_Signatures: "bytes_join tp (map Signature ss) = Inr (concat ss)"
  by (induction ss) simp_all

lemma Array_bytes:
  "list_all2 (\<lambda>a b. bytes_of tp a = Inr b) xs bs \<Longrightarrow>
   \<exists>count. count \<noteq> [] \<and> varint (int (length xs)) = Inr count \<and>
           bytes_of tp (Array xs) = Inr (count @ concat bs)"
  using varint_ok[of "int (length xs)"] bytes_join_concat[of tp xs bs]
  by (auto simp: Varint32_bytes_def)

text \<open>
  The tag of an optional follows the bytes of its inner value: \<open>01\<close> and the bytes when
  there are some, \<open>00\<close> when there are none.
\<close>

lemma Optional_bytes_tag:
  "bytes_of tp v = Inr b \<Longrightarrow>
   bytes_of tp (Optional v) = Inr (if b = [] then [0] else [1] @ b)"
  by (simp add: Bool_bytes_0_1)

subsection \<open>Object ids\<close>

text \<open>The model of \<open>int\<close> on a few texts.\<close>

lemma py_int_examples:
  "py_int ''7'' = Some 7"
  "py_int ''-5'' = Some (- 5)"
  "py_int ''+7'' = Some 7"
  "py_int '' 12 '' = Some 12"
  "py_int ''007'' = Some 7"
  "py_int ''1_0'' = Some 10"
  "py_int ''1__0'' = None"
  "py_int ''_1'' = None"
  "py_int ''1_'' = None"
  "py_int [CHR 0x1C, CHR ''7''] = None"
  "py_int [CHR 0xA0, CHR ''7''] = Some 7"
  "py_int ''- 5'' = None"
  "py_int [] = None"
  "py_int ''1.0'' = None"
  by code_simp+

lemma ObjectId_init_not_three:
  "length (str_split s CHR ''.'') \<noteq> 3 \<Longrightarrow>
   ObjectId_init to_int s tv = Inl (Exception ''Object id is invalid'')"
  by (auto simp: ObjectId_init_def split: list.splits)

lemma length_three: "length xs = 3 \<Longrightarrow> \<exists>a b c. xs = [a, b, c]"
  by (cases xs; cases "tl xs"; cases "tl (tl xs)") auto

lemma ObjectId_init_raises_iff:
  "(\<exists>e. ObjectId_init to_int s tv = Inl e) \<longleftrightarrow>
     (length (str_split s CHR ''.'') \<noteq> 3 \<or>
      (\<exists>p \<in> set (str_split s CHR ''.''). to_int p = None) \<or>
      (\<exists>hint. tv = Some hint \<and> hint \<noteq> [] \<and>
              map_of object_type hint \<noteq> to_int (str_split s CHR ''.'' ! 1)))"
proof (cases "length (str_split s CHR ''.'') = 3")
  case False
  then show ?thesis
    by (simp add: ObjectId_init_not_three)
next
  case True
  then obtain a b c where p: "str_split s CHR ''.'' = [a, b, c]"
    using length_three by blast
  show ?thesis
    by (cases "to_int a"; cases "to_int b"; cases "to_int c"; cases tv)
       (auto simp: ObjectId_init_def p split: option.splits)
qed

lemma ObjectId_init_wire:
  "ObjectId_init to_int s tv = Inr v \<Longrightarrow>
     \<exists>sp ty inst. v = ObjectId sp ty inst s \<and>
        to_int (str_split s CHR ''.'' ! 2) = Some inst \<and> bytes_of tp v = varint inst"
proof (cases "length (str_split s CHR ''.'') = 3")
  case False
  assume "ObjectId_init to_int s tv = Inr v"
  with False show ?thesis
    by (simp add: ObjectId_init_not_three)
next
  case True
  assume a: "ObjectId_init to_int s tv = Inr v"
  from True obtain a b c where p: "str_split s CHR ''.'' = [a, b, c]"
    using length_three by blast
  show ?thesis
    using a
    by (cases "to_int a"; cases "to_int b"; cases "to_int c"; cases tv)
       (auto simp: ObjectId_init_def p Id_bytes_def Varint32_bytes_def
             split: option.splits if_splits)
qed

text \<open>
  The three examples need of \<open>int\<close> only its value on the pieces of the text.
\<close>

lemma ObjectId_init_pieces:
  "str_split s CHR ''.'' = [a, b, c] \<Longrightarrow>
   to_int a = Some sp \<Longrightarrow> to_int b = Some ty \<Longrightarrow> to_int c = Some inst \<Longrightarrow>
   ObjectId_init to_int s None = Inr (ObjectId sp ty inst s)"
  by (simp add: ObjectId_init_def)

lemma split_examples:
  "str_split ''1.3.0'' CHR ''.'' = [''1'', ''3'', ''0'']"
  "str_split ''1.2.7'' CHR ''.'' = [''1'', ''2'', ''7'']"
  "str_split ''1.2.128'' CHR ''.'' = [''1'', ''2'', ''128'']"
  by code_simp+

lemma ObjectId_examples:
  "ObjectId_init py_int ''1.3.0'' None = Inr (ObjectId 1 3 0 ''1.3.0'')"
  "ObjectId_init py_int ''1.2.7'' None = Inr (ObjectId 1 2 7 ''1.2.7'')"
  "ObjectId_init py_int ''1.2.128'' None = Inr (ObjectId 1 2 128 ''1.2.128'')"
  by code_simp+

subsection \<open>The search for a canonical signature\<close>

lemma sign_search_step:
  "sign_search E sk dig cnt =
     (case sign_attempt E sk dig (Suc cnt) of
        Inl e \<Rightarrow> Some (Inl e)
      | Inr None \<Rightarrow> sign_search E sk dig (Suc cnt)
      | Inr (Some found) \<Rightarrow> Some (Inr found))"
  using sign_search.simps[of E sk dig cnt] by (simp only: Suc_eq_plus1)

lemma sign_search_result:
  assumes "sign_search E sk dig cnt = Some r"
  shows "\<exists>n. cnt < n \<and> (\<forall>m. cnt < m \<and> m < n \<longrightarrow> sign_attempt E sk dig m = Inr None) \<and>
             sign_attempt E sk dig n = (case r of Inl e \<Rightarrow> Inl e | Inr found \<Rightarrow> Inr (Some found))"
proof -
  define P where "P = (\<lambda>(E::('a, 'b) ecdsa) sk dig cnt r.
    \<exists>n. cnt < n \<and> (\<forall>m. cnt < m \<and> m < n \<longrightarrow> sign_attempt E sk dig m = Inr None) \<and>
        sign_attempt E sk dig n = (case r of Inl e \<Rightarrow> Inl e | Inr found \<Rightarrow> Inr (Some found)))"
  have step: "P E sk dig cnt r"
    if IH: "\<And>E sk dig cnt y. f E sk dig cnt = Some y \<Longrightarrow> P E sk dig cnt y"
    and eq: "(case sign_attempt E sk dig (cnt + 1) of
                Inl e \<Rightarrow> Some (Inl e)
              | Inr None \<Rightarrow> f E sk dig (cnt + 1)
              | Inr (Some found) \<Rightarrow> Some (Inr found)) = Some r"
    for f and E :: "('a, 'b) ecdsa" and sk dig cnt r
  proof (cases "sign_attempt E sk dig (cnt + 1)")
    case (Inl e)
    with eq have "r = Inl e"
      by simp
    with Inl show ?thesis
      unfolding P_def by (intro exI[of _ "cnt + 1"]) auto
  next
    case (Inr a)
    show ?thesis
    proof (cases a)
      case None
      with Inr eq have "f E sk dig (cnt + 1) = Some r"
        by simp
      from IH[OF this] obtain n where n: "cnt + 1 < n"
        "\<forall>m. cnt + 1 < m \<and> m < n \<longrightarrow> sign_attempt E sk dig m = Inr None"
        "sign_attempt E sk dig n = (case r of Inl e \<Rightarrow> Inl e | Inr found \<Rightarrow> Inr (Some found))"
        unfolding P_def by blast
      have "sign_attempt E sk dig m = Inr None" if "cnt < m" "m < n" for m
      proof (cases "m = cnt + 1")
        case True
        then show ?thesis
          using Inr None by simp
      next
        case False
        with that n(2) show ?thesis
          by simp
      qed
      with n(1,3) show ?thesis
        unfolding P_def by (intro exI[of _ n]) auto
    next
      case (Some found)
      with Inr eq have "r = Inr found"
        by simp
      with Inr Some show ?thesis
        unfolding P_def by (intro exI[of _ "cnt + 1"]) auto
    qed
  qed
  have "P E sk dig cnt r"
    by (rule sign_search.raw_induct[where P = P, OF step assms])
  then show ?thesis
    unfolding P_def .
qed

lemma recover_loop_Some_iff:
  "recover_loop E dig sg pk js = Inr (Some i) \<longleftrightarrow>
     (\<exists>pre post. js = pre @ i # post \<and>
        (\<exists>p. recover_public_key E dig sg i = Inr (Some p) \<and> to_string E p = to_string E pk) \<and>
        (\<forall>j \<in> set pre. \<exists>q. recover_public_key E dig sg j = Inr (Some q) \<and>
                               to_string E q \<noteq> to_string E pk))"
  (is "?L js \<longleftrightarrow> ?R js")
proof (induction js)
  case Nil
  then show ?case
    by simp
next
  case (Cons j js)
  show ?case
  proof
    assume L: "?L (j # js)"
    then obtain q where q: "recover_public_key E dig sg j = Inr (Some q)"
      by (auto split: sum.splits option.splits)
    show "?R (j # js)"
    proof (cases "to_string E q = to_string E pk")
      case True
      with L q have "i = j"
        by simp
      with q True show ?thesis
        by (intro exI[of _ "[]"] exI[of _ js]) simp
    next
      case False
      with L q have "?L js"
        by simp
      with Cons.IH obtain pre post where pp: "js = pre @ i # post"
        "\<exists>p. recover_public_key E dig sg i = Inr (Some p) \<and> to_string E p = to_string E pk"
        "\<forall>j \<in> set pre. \<exists>q. recover_public_key E dig sg j = Inr (Some q) \<and>
                               to_string E q \<noteq> to_string E pk"
        by blast
      with q False show ?thesis
        by (intro exI[of _ "j # pre"] exI[of _ post]) simp
    qed
  next
    assume "?R (j # js)"
    then obtain pre post p where pp: "j # js = pre @ i # post"
      "recover_public_key E dig sg i = Inr (Some p)" "to_string E p = to_string E pk"
      "\<forall>j \<in> set pre. \<exists>q. recover_public_key E dig sg j = Inr (Some q) \<and>
                             to_string E q \<noteq> to_string E pk"
      by blast
    show "?L (j # js)"
    proof (cases pre)
      case Nil
      with pp(1) have "j = i"
        by simp
      with pp(2,3) show ?thesis
        by simp
    next
      case (Cons a pre')
      with pp(1) have a: "a = j" and js: "js = pre' @ i # post"
        by simp_all
      from pp(4) Cons a obtain q where q: "recover_public_key E dig sg j = Inr (Some q)"
        "to_string E q \<noteq> to_string E pk"
        by auto
      from pp(2,3,4) Cons js have "?R js"
        by auto
      with Cons.IH have "?L js"
        by simp
      with q show ?thesis
        by simp
    qed
  qed
qed

lemma recover_loop_None_iff:
  "recover_loop E dig sg pk js = Inr None \<longleftrightarrow>
     (\<forall>j \<in> set js. \<exists>q. recover_public_key E dig sg j = Inr (Some q) \<and>
                           to_string E q \<noteq> to_string E pk)"
  by (induction js) (auto split: sum.splits option.splits)

lemma recover_loop_mem: "recover_loop E dig sg pk js = Inr (Some i) \<Longrightarrow> i \<in> set js"
  by (auto simp: recover_loop_Some_iff)

lemma length_le_bytes: "length (le_bytes k n) = k"
  by (induction k arbitrary: n) simp_all

lemma number_to_string_length: "number_to_string n = Inr bs \<Longrightarrow> length bs = 32"
  by (auto simp: number_to_string_def length_le_bytes split: if_splits)

lemma sigencode_string_length: "sigencode_string r s = Inr sg \<Longrightarrow> length sg = 64"
  by (cases "number_to_string r"; cases "number_to_string s")
     (auto simp: sigencode_string_def dest!: number_to_string_length)

lemma recoverPubkeyParameter_range:
  "recoverPubkeyParameter E dig sg pk = Inr (Some i) \<Longrightarrow> i \<in> {0, 1, 2, 3}"
  using recover_loop_mem[of E dig sg pk "[0, 1, 2, 3]" i]
  by (simp add: recoverPubkeyParameter_def)

lemma sign_attempt_found:
  assumes "sign_attempt E sk dig n = Inr (Some (h, rs))"
  shows "\<exists>sigder r s i.
           sign_digest E sk dig n = Inr sigder \<and>
           index sigder 3 = Inr 32 \<and> index sigder (5 + 32) = Inr 32 \<and>
           sigdecode_der E sigder = Inr (r, s) \<and> sigencode_string r s = Inr rs \<and>
           recoverPubkeyParameter E dig rs (get_verifying_key E sk) = Inr (Some i) \<and>
           h = i + 4 + 27"
  using assms
  by (auto simp: sign_attempt_def bind_err_def split: sum.splits prod.splits if_splits option.splits)

lemma sign_attempt_retry_iff:
  "sign_attempt E sk dig n = Inr None \<longleftrightarrow>
     (\<exists>sigder r s rs lenR lenS.
        sign_digest E sk dig n = Inr sigder \<and> sigdecode_der E sigder = Inr (r, s) \<and>
        sigencode_string r s = Inr rs \<and>
        index sigder 3 = Inr lenR \<and> index sigder (5 + lenR) = Inr lenS \<and>
        \<not> (lenR = 32 \<and> lenS = 32))"
  by (auto simp: sign_attempt_def bind_err_def split: sum.splits prod.splits if_splits option.splits)

lemma sign_attempt_no_match:
  assumes "sign_digest E sk dig n = Inr sigder" "sigdecode_der E sigder = Inr (r, s)"
    "sigencode_string r s = Inr rs" "index sigder 3 = Inr 32" "index sigder (5 + 32) = Inr 32"
    "recoverPubkeyParameter E dig rs (get_verifying_key E sk) = Inr None"
  shows "sign_attempt E sk dig n = Inl TypeError"
  using assms by (simp add: sign_attempt_def)

subsection \<open>What a call of \<open>sign\<close> that returns has done\<close>

lemma map_of_dict_set: "map_of (dict_set k v d) k = Some v"
  by (induction d) auto

lemma bytes_fields_append:
  "bytes_fields tp (fs @ gs) = cat (bytes_fields tp fs) (bytes_fields tp gs)"
proof (induction fs)
  case Nil
  show ?case by (cases "bytes_fields tp gs") simp_all
next
  case (Cons f fs)
  obtain name v where f: "f = (name, v)" by (cases f)
  show ?case
    unfolding f using Cons.IH
    by (simp add: cat_def bind_err_def split: sum.splits)
qed

lemma bytes_fields_Void_last:
  "bytes_fields tp (fs @ [(name, Void)]) = bytes_fields tp fs"
  by (cases "bytes_fields tp fs") (simp_all add: bytes_fields_append)

lemma sign_keys_result:
  "sign_keys E dig wifs sigs0 = Some (Inr sigs) \<Longrightarrow>
     \<exists>new. sigs = sigs0 @ new \<and> length new = length wifs \<and>
       (\<forall>v \<in> set new. \<exists>sk n h rs hb.
          sign_attempt E sk dig n = Inr (Some (h, rs)) \<and> pack_B h = Inr hb \<and>
          v = Signature (hb @ rs))"
proof (induction wifs arbitrary: sigs0)
  case Nil
  then show ?case by simp
next
  case (Cons wif wifs)
  from Cons.prems obtain p where p: "PrivateKey_bytes E wif = Inr p"
    by (auto split: sum.splits)
  from Cons.prems p obtain sk where sk: "SigningKey_from_string E p = Inr sk"
    by (auto split: sum.splits)
  from Cons.prems p sk obtain h rs where s: "sign_search E sk dig 0 = Some (Inr (h, rs))"
    by (auto split: sum.splits option.splits)
  from Cons.prems p sk s obtain hb where hb: "pack_B h = Inr hb"
    by (cases "pack_B h") auto
  from Cons.prems p sk s hb have rest: "sign_keys E dig wifs (sigs0 @ [Signature (hb @ rs)]) = Some (Inr sigs)"
    by simp
  from sign_search_result[OF s] obtain n where n: "sign_attempt E sk dig n = Inr (Some (h, rs))"
    by auto
  from Cons.IH[OF rest] obtain new where new: "sigs = (sigs0 @ [Signature (hb @ rs)]) @ new"
    "length new = length wifs"
    "\<forall>v \<in> set new. \<exists>sk n h rs hb.
          sign_attempt E sk dig n = Inr (Some (h, rs)) \<and> pack_B h = Inr hb \<and>
          v = Signature (hb @ rs)"
    by blast
  show ?case
  proof (intro exI[of _ "Signature (hb @ rs) # new"] conjI ballI)
    show "sigs = sigs0 @ Signature (hb @ rs) # new" using new(1) by simp
    show "length (Signature (hb @ rs) # new) = length (wif # wifs)" using new(2) by simp
    fix v assume "v \<in> set (Signature (hb @ rs) # new)"
    then consider "v = Signature (hb @ rs)" | "v \<in> set new" by auto
    then show "\<exists>sk n h rs hb.
          sign_attempt E sk dig n = Inr (Some (h, rs)) \<and> pack_B h = Inr hb \<and>
          v = Signature (hb @ rs)"
    proof cases
      case 1
      with n hb show ?thesis by blast
    next
      case 2
      with new(3) show ?thesis by blast
    qed
  qed
qed

lemma sign_returns:
  assumes "sign E tp wifkeys chain self = Some (None, self')"
  shows "\<exists>ps cid raw body sigs.
           resolved_chain chain = Some ps \<and> map_of ps ''chain_id'' = Some cid \<and>
           unhexlify cid = Inr raw \<and> bytes_fields tp (tx_data self) = Inr body \<and>
           sign_keys E (sha256 E (raw @ body)) (unique wifkeys) [] = Some (Inr sigs) \<and>
           self' = self\<lparr>tx_privkeys := Some (unique wifkeys), tx_chainid := Some cid,
                         tx_message := Some (raw @ body),
                         tx_digest := Some (sha256 E (raw @ body)),
                         tx_data := dict_set ''signatures'' (Array sigs) (tx_data self)\<rparr>"
proof -
  from assms obtain ps where ps: "chain_params ''sign() only takes a string or a dict as chain!'' chain = Inr ps"
    by (auto simp: sign_def split: sum.splits)
  then have rc: "resolved_chain chain = Some ps"
    by (cases chain) (auto simp: resolved_chain_def split: option.splits)
  from assms ps obtain cid where cid: "map_of ps ''chain_id'' = Some cid"
    by (auto simp: sign_def split: option.splits)
  from assms ps cid obtain msg where msg: "cat (unhexlify cid) (bytes_fields tp (tx_data self)) = Inr msg"
    by (auto simp: sign_def Let_def split: sum.splits)
  then obtain raw body where rb: "unhexlify cid = Inr raw" "bytes_fields tp (tx_data self) = Inr body" "msg = raw @ body"
    by (cases "unhexlify cid"; cases "bytes_fields tp (tx_data self)") auto
  from assms ps cid msg obtain sigs where sigs: "sign_keys E (sha256 E msg) (unique wifkeys) [] = Some (Inr sigs)"
    by (auto simp: sign_def Let_def split: sum.splits option.splits)
  from assms ps cid msg sigs have "self' = self\<lparr>tx_privkeys := Some (unique wifkeys), tx_chainid := Some cid,
                         tx_message := Some msg,
                         tx_digest := Some (sha256 E msg),
                         tx_data := dict_set ''signatures'' (Array sigs) (tx_data self)\<rparr>"
    by (simp add: sign_def Let_def)
  with rc cid rb sigs show ?thesis by blast
qed

subsection \<open>The chain descriptor\<close>

lemma chain_params_resolved:
  "chain_params msg chain =
     (case resolved_chain chain of None \<Rightarrow> Inl (Exception msg) | Some ps \<Rightarrow> Inr ps)"
  by (cases chain) (auto simp: resolved_chain_def split: option.splits)

lemma sign_bad_chain:
  assumes "bad_chain_descriptor chain"
  shows "\<exists>msg. msg \<in> {''sign() only takes a string or a dict as chain!'',
                      ''sign() needs a 'chain_id' in chain params!''} \<and>
               sign E tp wifkeys chain self = Some (Some (Exception msg), self)"
proof (cases "resolved_chain chain")
  case None
  then show ?thesis
    by (simp add: sign_def chain_params_resolved)
next
  case (Some ps)
  with assms have "map_of ps ''chain_id'' = None"
    by (simp add: bad_chain_descriptor_def map_of_eq_None_iff)
  with Some show ?thesis
    by (simp add: sign_def chain_params_resolved)
qed

lemma sign_good_chain:
  assumes "\<not> bad_chain_descriptor chain"
  shows "\<exists>ps cid. resolved_chain chain = Some ps \<and> map_of ps ''chain_id'' = Some cid \<and>
           (\<forall>res self'. sign E tp wifkeys chain self = Some (res, self') \<longrightarrow>
              tx_privkeys self' = Some (unique wifkeys) \<and> tx_chainid self' = Some cid \<and>
              tx_data self' = (case res of None \<Rightarrow> tx_data self' | Some e \<Rightarrow> tx_data self))"
proof -
  from assms obtain ps where ps: "resolved_chain chain = Some ps"
    by (auto simp: bad_chain_descriptor_def split: option.splits)
  with assms obtain cid where cid: "map_of ps ''chain_id'' = Some cid"
    by (cases "map_of ps ''chain_id''") (auto simp: bad_chain_descriptor_def map_of_eq_None_iff)
  have "tx_privkeys self' = Some (unique wifkeys) \<and> tx_chainid self' = Some cid \<and>
        tx_data self' = (case res of None \<Rightarrow> tx_data self' | Some e \<Rightarrow> tx_data self)"
    if "sign E tp wifkeys chain self = Some (res, self')" for res self'
    using that ps cid
    by (auto simp: sign_def chain_params_resolved Let_def split: sum.splits option.splits)
  with ps cid show ?thesis
    by blast
qed

subsection \<open>The stand-in library on the sample transaction\<close>

lemma sample_unhex:
  "unhexlify ''b8d1603965b3eb1acba27e62ff59f74efa3154d43a4188d381088ac7cdf35539''
     = Inr sample_chain_id"
  by code_simp

lemma sample_body_eq: "bytes_fields sample_clock (tx_data sample_tx) = Inr sample_body"
  by code_simp

lemma stub_hash: "sha256 stub_ecdsa (sample_chain_id @ sample_body) = sample_chain_id"
  by code_simp

lemma stub_keys:
  "PrivateKey_bytes stub_ecdsa ''K'' = Inr [75]"
  "PrivateKey_bytes stub_ecdsa ''KK'' = Inr [75, 75]"
  "SigningKey_from_string stub_ecdsa [75] = Inr 1"
  "SigningKey_from_string stub_ecdsa [75, 75] = Inr 2"
  by code_simp+

lemma stub_attempts:
  "sign_attempt stub_ecdsa 1 sample_chain_id (Suc 0) = Inr None"
  "sign_attempt stub_ecdsa 1 sample_chain_id (Suc (Suc 0))
     = Inr (Some (32, replicate 32 2 @ replicate 32 1))"
  "sign_attempt stub_ecdsa 2 sample_chain_id (Suc 0) = Inr None"
  "sign_attempt stub_ecdsa 2 sample_chain_id (Suc (Suc 0))
     = Inr (Some (33, replicate 32 2 @ replicate 32 1))"
  by code_simp+

lemma stub_search_1:
  "sign_search stub_ecdsa 1 sample_chain_id 0
     = Some (Inr (32, replicate 32 2 @ replicate 32 1))"
  by (simp add: sign_search_step[of _ _ _ 0] sign_search_step[of _ _ _ "Suc 0"] stub_attempts
           del: replicate.simps)

lemma stub_search_2:
  "sign_search stub_ecdsa 2 sample_chain_id 0
     = Some (Inr (33, replicate 32 2 @ replicate 32 1))"
  by (simp add: sign_search_step[of _ _ _ 0] sign_search_step[of _ _ _ "Suc 0"] stub_attempts
           del: replicate.simps)

lemma pack_B_header: "pack_B 32 = Inr [32]" "pack_B 33 = Inr [33]"
  by (simp_all add: pack_B_def pack_unsigned_def)

lemma stub_sign_keys:
  "sign_keys stub_ecdsa sample_chain_id [''K'', ''KK''] []
     = Some (Inr [Signature (32 # replicate 32 2 @ replicate 32 1),
                  Signature (33 # replicate 32 2 @ replicate 32 1)])"
  by (simp add: stub_keys stub_search_1 stub_search_2 pack_B_header del: replicate.simps)

lemma sample_unique: "unique [''K'', ''KK'', ''K''] = [''K'', ''KK'']"
  by code_simp

lemma known_chain_GPH:
  "map_of known_chains ''GPH''
     = Some [(''chain_id'', ''b8d1603965b3eb1acba27e62ff59f74efa3154d43a4188d381088ac7cdf35539''),
             (''core_symbol'', ''CORE''), (''prefix'', ''GPH'')]"
  by (simp add: known_chains_def)

lemma stub_sign:
  "sign stub_ecdsa sample_clock [''K'', ''KK'', ''K''] (ChainStr ''GPH'') sample_tx
     = Some (None, signed_sample_tx)"
  by (simp add: sign_def signed_sample_tx_def known_chain_GPH sample_unique sample_unhex
        sample_body_eq stub_hash stub_sign_keys Let_def del: replicate.simps sign_keys.simps)

lemma odd_first_attempts:
  "sign_attempt stub_ecdsa_odd_first 1 sample_chain_id (Suc 0) = Inl TypeError"
  "sign_attempt stub_ecdsa_odd_first 1 sample_chain_id (Suc (Suc 0))
     = Inr (Some (32, replicate 32 2 @ replicate 32 1))"
  "recoverPubkeyParameter stub_ecdsa_odd_first sample_chain_id
     (replicate 32 3 @ replicate 32 1) 1 = Inr None"
  by code_simp+

lemma bad_XYZ: "bad_chain_descriptor (ChainStr ''XYZ'')"
  by code_simp

lemma good_GPH: "\<not> bad_chain_descriptor (ChainStr ''GPH'')"
  by code_simp

lemma stub_second_attempt_key_7:
  "sign_digest stub_ecdsa 7 sample_chain_id (Suc (Suc 0))
     = Inr (der_pair (replicate 32 2) (replicate 32 1)) \<and>
   sigdecode_der stub_ecdsa (der_pair (replicate 32 2) (replicate 32 1))
     = Inr (be_int (replicate 32 2), be_int (replicate 32 1)) \<and>
   sigencode_string (be_int (replicate 32 2)) (be_int (replicate 32 1))
     = Inr (replicate 32 2 @ replicate 32 1) \<and>
   index (der_pair (replicate 32 2) (replicate 32 1)) 3 = Inr 32 \<and>
   index (der_pair (replicate 32 2) (replicate 32 1)) (5 + 32) = Inr 32 \<and>
   recoverPubkeyParameter stub_ecdsa sample_chain_id (replicate 32 2 @ replicate 32 1)
     (get_verifying_key stub_ecdsa 7) = Inr None"
  by code_simp

lemma stub_recover_key_1:
  "recoverPubkeyParameter stub_ecdsa sample_chain_id (replicate 32 2 @ replicate 32 1) 1
     = Inr (Some 1)"
  by code_simp

lemma odd_first_parts:
  "sha256 stub_ecdsa_odd_first (sample_chain_id @ sample_body) = sample_chain_id"
  "PrivateKey_bytes stub_ecdsa_odd_first ''K'' = Inr [75]"
  "SigningKey_from_string stub_ecdsa_odd_first [75] = Inr 1"
  "unique [''K''] = [''K'']"
  by code_simp+

lemma odd_first_search: "sign_search stub_ecdsa_odd_first 1 sample_chain_id 0 = Some (Inl TypeError)"
  by (simp add: sign_search_step[of _ _ _ 0] odd_first_attempts)

lemma signed_sample_signatures:
  "map_of (tx_data signed_sample_tx) ''signatures''
     = Some (Array [Signature (32 # replicate 32 2 @ replicate 32 1),
                    Signature (33 # replicate 32 2 @ replicate 32 1)]) \<and>
   length (32 # replicate 32 2 @ replicate 32 1 :: byte list) = 65 \<and>
   length (33 # replicate 32 2 @ replicate 32 1 :: byte list) = 65 \<and>
   tx_digest signed_sample_tx = Some sample_chain_id"
  by code_simp


section \<open>The claims\<close>

text \<open>
  C1.  When \<open>sign\<close> returns, the \<open>signatures\<close> field holds one signature for each
  distinct key, and each of them is 65 bytes, a header byte followed by
  \<open>sigencode_string(r, s)\<close>, where \<open>(r, s)\<close> is decoded from a DER signature that the
  signer returned for the digest and whose two length bytes, \<open>sigder[3]\<close> and
  \<open>sigder[5 + 32]\<close>, are 32; the header byte is the recovery index found for it, one of
  0 to 3, plus 4 and 27: one of 31, 32, 33, 34.
\<close>

theorem sign_appends_canonical_signatures:
  assumes "sign E tp wifkeys chain self = Some (None, self')"
  shows "\<exists>dig sigs.
           tx_digest self' = Some dig \<and>
           map_of (tx_data self') ''signatures'' = Some (Array sigs) \<and>
           length sigs = length (unique wifkeys) \<and>
           (\<forall>v \<in> set sigs. \<exists>sk cnt sigder r s rs i header.
              sign_digest E sk dig cnt = Inr sigder \<and>
              index sigder 3 = Inr 32 \<and> index sigder (5 + 32) = Inr 32 \<and>
              sigdecode_der E sigder = Inr (r, s) \<and> sigencode_string r s = Inr rs \<and>
              recoverPubkeyParameter E dig rs (get_verifying_key E sk) = Inr (Some i) \<and>
              i \<in> {0, 1, 2, 3} \<and> header = word_of_int (i + 4 + 27) \<and>
              header \<in> {31, 32, 33, 34} \<and>
              v = Signature (header # rs) \<and> length (header # rs) = 65)"
proof -
  from sign_returns[OF assms] obtain cid raw body sigs where
    k: "sign_keys E (sha256 E (raw @ body)) (unique wifkeys) [] = Some (Inr sigs)" and
    s: "self' = self\<lparr>tx_privkeys := Some (unique wifkeys), tx_chainid := Some cid,
                       tx_message := Some (raw @ body),
                       tx_digest := Some (sha256 E (raw @ body)),
                       tx_data := dict_set ''signatures'' (Array sigs) (tx_data self)\<rparr>"
    by blast
  let ?dig = "sha256 E (raw @ body)"
  from sign_keys_result[OF k] have len: "length sigs = length (unique wifkeys)" and
    each: "\<forall>v \<in> set sigs. \<exists>sk n h rs hb.
             sign_attempt E sk ?dig n = Inr (Some (h, rs)) \<and> pack_B h = Inr hb \<and>
             v = Signature (hb @ rs)"
    by auto
  have "\<exists>sk cnt sigder r s rs i header.
              sign_digest E sk ?dig cnt = Inr sigder \<and>
              index sigder 3 = Inr 32 \<and> index sigder (5 + 32) = Inr 32 \<and>
              sigdecode_der E sigder = Inr (r, s) \<and> sigencode_string r s = Inr rs \<and>
              recoverPubkeyParameter E ?dig rs (get_verifying_key E sk) = Inr (Some i) \<and>
              i \<in> {0, 1, 2, 3} \<and> header = word_of_int (i + 4 + 27) \<and>
              header \<in> {31, 32, 33, 34} \<and>
              v = Signature (header # rs) \<and> length (header # rs) = 65"
    if "v \<in> set sigs" for v
  proof -
    from each that obtain sk n h rs hb where
      a: "sign_attempt E sk ?dig n = Inr (Some (h, rs))" and hb: "pack_B h = Inr hb" and
      v: "v = Signature (hb @ rs)"
      by blast
    from sign_attempt_found[OF a] obtain sigder r s i where
      f: "sign_digest E sk ?dig n = Inr sigder" "index sigder 3 = Inr 32"
         "index sigder (5 + 32) = Inr 32" "sigdecode_der E sigder = Inr (r, s)"
         "sigencode_string r s = Inr rs"
         "recoverPubkeyParameter E ?dig rs (get_verifying_key E sk) = Inr (Some i)"
         "h = i + 4 + 27"
      by blast
    from recoverPubkeyParameter_range[OF f(6)] have i: "i \<in> {0, 1, 2, 3}" .
    with f(7) hb have hb': "hb = [word_of_int (i + 4 + 27)]"
      by (auto simp: pack_B_def pack_unsigned_def)
    from i have hd: "(word_of_int (i + 4 + 27) :: byte) \<in> {31, 32, 33, 34}"
      by auto
    from sigencode_string_length[OF f(5)] have "length (word_of_int (i + 4 + 27) # rs) = 65"
      by simp
    with f i hd v hb' show ?thesis
      by (intro exI[of _ sk] exI[of _ n] exI[of _ sigder] exI[of _ r] exI[of _ s]
                exI[of _ rs] exI[of _ i] exI[of _ "word_of_int (i + 4 + 27)"]) simp
  qed
  then show ?thesis
    using len s by (intro exI[of _ ?dig] exI[of _ sigs]) (simp add: map_of_dict_set)
qed

theorem sign_appends_canonical_signatures_witness:
  "sign stub_ecdsa sample_clock [''K'', ''KK'', ''K''] (ChainStr ''GPH'') sample_tx
     = Some (None, signed_sample_tx) \<and>
   (\<exists>dig sigs.
      tx_digest signed_sample_tx = Some dig \<and>
      map_of (tx_data signed_sample_tx) ''signatures'' = Some (Array sigs) \<and>
      length sigs = length (unique [''K'', ''KK'', ''K'']) \<and>
      (\<forall>v \<in> set sigs. \<exists>sk cnt sigder r s rs i header.
         sign_digest stub_ecdsa sk dig cnt = Inr sigder \<and>
         index sigder 3 = Inr 32 \<and> index sigder (5 + 32) = Inr 32 \<and>
         sigdecode_der stub_ecdsa sigder = Inr (r, s) \<and> sigencode_string r s = Inr rs \<and>
         recoverPubkeyParameter stub_ecdsa dig rs (get_verifying_key stub_ecdsa sk)
           = Inr (Some i) \<and>
         i \<in> {0, 1, 2, 3} \<and> header = word_of_int (i + 4 + 27) \<and>
         header \<in> {31, 32, 33, 34} \<and>
         v = Signature (header # rs) \<and> length (header # rs) = 65)) \<and>
   map_of (tx_data signed_sample_tx) ''signatures''
     = Some (Array [Signature (32 # replicate 32 2 @ replicate 32 1),
                    Signature (33 # replicate 32 2 @ replicate 32 1)]) \<and>
   length (32 # replicate 32 2 @ replicate 32 1 :: byte list) = 65 \<and>
   length (33 # replicate 32 2 @ replicate 32 1 :: byte list) = 65 \<and>
   tx_digest signed_sample_tx = Some sample_chain_id"
  by (intro conjI)
     (rule stub_sign, rule sign_appends_canonical_signatures[OF stub_sign],
      rule signed_sample_signatures[THEN conjunct1],
      rule signed_sample_signatures[THEN conjunct2, THEN conjunct1],
      rule signed_sample_signatures[THEN conjunct2, THEN conjunct2, THEN conjunct1],
      rule signed_sample_signatures[THEN conjunct2, THEN conjunct2, THEN conjunct2])

text \<open>
  C2.  When \<open>sign\<close> returns on a transaction whose last field is still the \<open>Void\<close>
  placeholder of \<open>__init__\<close>, the message is the hex-decoded \<open>chain_id\<close> followed by the
  wire bytes of the fields before \<open>signatures\<close> (the placeholder adds no byte), as they
  are before the call stores any signature; the digest is the SHA-256 of that message,
  and it is the digest that the keys sign.
\<close>

theorem sign_digest_is_sha256_of_chain_id_and_body:
  assumes "sign E tp wifkeys chain self = Some (None, self')"
    and "tx_data self = fs @ [(''signatures'', Void)]"
  shows "\<exists>cid raw body sigs.
           tx_chainid self' = Some cid \<and> unhexlify cid = Inr raw \<and>
           bytes_fields tp fs = Inr body \<and>
           bytes_of tp Void = Inr [] \<and>
           bytes_fields tp (tx_data self) = Inr body \<and>
           tx_message self' = Some (raw @ body) \<and>
           tx_digest self' = Some (sha256 E (raw @ body)) \<and>
           sign_keys E (sha256 E (raw @ body)) (unique wifkeys) [] = Some (Inr sigs)"
proof -
  from sign_returns[OF assms(1)] obtain cid raw body sigs where
    r: "unhexlify cid = Inr raw" "bytes_fields tp (tx_data self) = Inr body"
       "sign_keys E (sha256 E (raw @ body)) (unique wifkeys) [] = Some (Inr sigs)" and
    s: "self' = self\<lparr>tx_privkeys := Some (unique wifkeys), tx_chainid := Some cid,
                       tx_message := Some (raw @ body),
                       tx_digest := Some (sha256 E (raw @ body)),
                       tx_data := dict_set ''signatures'' (Array sigs) (tx_data self)\<rparr>"
    by blast
  from r(2) assms(2) have b: "bytes_fields tp fs = Inr body"
    by (simp add: bytes_fields_Void_last)
  show ?thesis
    using r b s
    by (intro exI[of _ cid] exI[of _ raw] exI[of _ body] exI[of _ sigs]) simp
qed

theorem sign_digest_is_sha256_of_chain_id_and_body_witness:
  "sign stub_ecdsa sample_clock [''K'', ''KK'', ''K''] (ChainStr ''GPH'') sample_tx
     = Some (None, signed_sample_tx) \<and>
   tx_data sample_tx =
     [(''ref_block_num'', Uint16 34294),
      (''ref_block_prefix'', Uint32 3707022213),
      (''expiration'', PointInTime ''2016-01-01T00:00:00''),
      (''operations'',
         Array [Operation (sample_transfer (GrapheneObject ''Memo'' None)) ''transfer'' 0]),
      (''extensions'', Set [])] @ [(''signatures'', Void)] \<and>
   (\<exists>cid raw body sigs.
      tx_chainid signed_sample_tx = Some cid \<and> unhexlify cid = Inr raw \<and>
      bytes_fields sample_clock
        [(''ref_block_num'', Uint16 34294),
         (''ref_block_prefix'', Uint32 3707022213),
         (''expiration'', PointInTime ''2016-01-01T00:00:00''),
         (''operations'',
            Array [Operation (sample_transfer (GrapheneObject ''Memo'' None)) ''transfer'' 0]),
         (''extensions'', Set [])] = Inr body \<and>
      bytes_of sample_clock Void = Inr [] \<and>
      bytes_fields sample_clock (tx_data sample_tx) = Inr body \<and>
      tx_message signed_sample_tx = Some (raw @ body) \<and>
      tx_digest signed_sample_tx = Some (sha256 stub_ecdsa (raw @ body)) \<and>
      sign_keys stub_ecdsa (sha256 stub_ecdsa (raw @ body)) (unique [''K'', ''KK'', ''K'']) []
        = Some (Inr sigs))"
proof -
  have d: "tx_data sample_tx =
     [(''ref_block_num'', Uint16 34294),
      (''ref_block_prefix'', Uint32 3707022213),
      (''expiration'', PointInTime ''2016-01-01T00:00:00''),
      (''operations'',
         Array [Operation (sample_transfer (GrapheneObject ''Memo'' None)) ''transfer'' 0]),
      (''extensions'', Set [])] @ [(''signatures'', Void)]"
    by (simp add: sample_tx_def new_tx_def Signed_Transaction_data_def)
  show ?thesis
    by (intro conjI)
       (rule stub_sign, rule d,
        rule sign_digest_is_sha256_of_chain_id_and_body[OF stub_sign d])
qed

text \<open>
  C3.  The claim: for every \<open>n\<close> in \<open>[0, 2^64)\<close>, \<open>varintdecode(varint(n)) = n\<close>.
  What the code does: \<open>varint\<close> returns a byte string, iterating it yields integers,
  and \<open>ord\<close> raises TypeError on the first of them.  For every \<open>n\<close> that is not
  negative the composition raises instead of returning \<open>n\<close>.  (The loop itself is the
  inverse of the encoder, \<open>varintdecode_text_of_varint\<close>.)
\<close>

theorem varintdecode_of_varint_raises:
  "0 \<le> n \<Longrightarrow> \<exists>bs. varint n = Inr bs \<and> varintdecode (BytesObj bs) = Inl TypeError"
  using varint_ok[of n] varintdecode_bytes by auto

theorem varintdecode_of_varint_raises_witness:
  "(0::int) \<le> 300 \<and> varint 300 = Inr [0xAC, 0x02] \<and>
   varintdecode (BytesObj [0xAC, 0x02]) = Inl TypeError"
  using varintdecode_of_varint_raises[of 300] by (simp add: varint_300)

text \<open>
  C4.  The claim: an absent optional encodes to the single byte \<open>00\<close>, a present one
  with inner \<open>v\<close> to \<open>01\<close> followed by the bytes of \<open>v\<close>, and the memo of a \<open>Transfer\<close>
  built with no memo to \<open>00\<close>.  The code aims at this: \<open>Optional.__bytes__\<close> has a
  branch for the absent case, \<open>bytes(Bool(0))\<close>, an optional that holds an empty
  \<open>Memo()\<close> does encode to \<open>00\<close>, and one that holds an asset to \<open>01\<close> and the bytes of
  the asset.  But \<open>Transfer\<close> gives \<open>_memo\<close> the default \<open>None\<close>, and on \<open>Optional(None)\<close>
  the test of that branch, \<open>bytes(self.data)\<close>, is \<open>bytes(None)\<close>, which raises
  \<open>TypeError\<close>: the memo field of a \<open>Transfer\<close> built with no memo has no encoding, and
  neither has the transfer.
\<close>

theorem Transfer_without_memo_raises:
  "Transfer_init py_int (core_asset 10) ''1.2.7'' ''1.2.128'' (core_asset 5) PyNone
     = Inr (sample_transfer PyNone) \<and>
   bytes_of sample_clock (Optional PyNone) = Inl TypeError \<and>
   bytes_of sample_clock (sample_transfer PyNone) = Inl TypeError \<and>
   bytes_of sample_clock (Optional (GrapheneObject ''Memo'' None)) = Inr [0] \<and>
   bytes_of sample_clock (Optional (core_asset 5)) = Inr ([1] @ [5,0,0,0,0,0,0,0,0])"
  by code_simp

text \<open>
  C5.  The claim: when no index from 0 to 3 recovers the signer's key, the attempt is
  discarded and a new one is made.  Here the first signature drawn is canonical and no
  index recovers the key from it, and the second one would do: \<open>recoverPubkeyParameter\<close>
  returns \<open>None\<close>, \<open>i += 4\<close> raises on it, and the search, and \<open>sign\<close>, end with that
  TypeError; no second attempt is made.
\<close>

theorem no_retry_when_no_index_matches_counterexample:
  "recoverPubkeyParameter stub_ecdsa_odd_first sample_chain_id
     (replicate 32 3 @ replicate 32 1) 1 = Inr None \<and>
   sign_attempt stub_ecdsa_odd_first 1 sample_chain_id (Suc 0) = Inl TypeError \<and>
   sign_attempt stub_ecdsa_odd_first 1 sample_chain_id (Suc (Suc 0))
     = Inr (Some (32, replicate 32 2 @ replicate 32 1)) \<and>
   sign_search stub_ecdsa_odd_first 1 sample_chain_id 0 = Some (Inl TypeError) \<and>
   sign stub_ecdsa_odd_first sample_clock [''K''] (ChainStr ''GPH'') sample_tx
     = Some (Some TypeError,
         sample_tx\<lparr>tx_privkeys := Some [''K''],
           tx_chainid := Some ''b8d1603965b3eb1acba27e62ff59f74efa3154d43a4188d381088ac7cdf35539'',
           tx_message := Some (sample_chain_id @ sample_body),
           tx_digest := Some sample_chain_id\<rparr>)"
proof -
  have "sign stub_ecdsa_odd_first sample_clock [''K''] (ChainStr ''GPH'') sample_tx
     = Some (Some TypeError,
         sample_tx\<lparr>tx_privkeys := Some [''K''],
           tx_chainid := Some ''b8d1603965b3eb1acba27e62ff59f74efa3154d43a4188d381088ac7cdf35539'',
           tx_message := Some (sample_chain_id @ sample_body),
           tx_digest := Some sample_chain_id\<rparr>)"
    by (simp add: sign_def known_chain_GPH sample_unhex sample_body_eq odd_first_parts
          odd_first_search Let_def)
  with odd_first_attempts odd_first_search show ?thesis
    by (intro conjI)
qed

text \<open>
  C5, as the code has it.  \<open>recoverPubkeyParameter\<close> tries the indices 0, 1, 2, 3 in
  this order and returns the first one whose recovered key has the bytes of the signer's
  key (every index before it having recovered another key), and \<open>None\<close> when each of the
  four recovers another key.  The signing loop makes a new attempt exactly after an
  attempt whose DER lengths are not both 32; an attempt with both lengths 32 for which
  no index matches is not discarded: the search ends there, with an error.
\<close>

theorem recovery_parameter_first_match_no_retry:
  "(recoverPubkeyParameter E dig rs pk = Inr (Some i) \<longleftrightarrow>
      (\<exists>pre post. [0, 1, 2, 3] = pre @ i # post \<and>
         (\<exists>p. recover_public_key E dig rs i = Inr (Some p) \<and> to_string E p = to_string E pk) \<and>
         (\<forall>j \<in> set pre. \<exists>q. recover_public_key E dig rs j = Inr (Some q) \<and>
                               to_string E q \<noteq> to_string E pk))) \<and>
   (recoverPubkeyParameter E dig rs pk = Inr None \<longleftrightarrow>
      (\<forall>j \<in> {0, 1, 2, 3}. \<exists>q. recover_public_key E dig rs j = Inr (Some q) \<and>
                               to_string E q \<noteq> to_string E pk)) \<and>
   (sign_attempt E sk dig' n = Inr None \<longleftrightarrow>
      (\<exists>sigder r s rs lenR lenS.
         sign_digest E sk dig' n = Inr sigder \<and> sigdecode_der E sigder = Inr (r, s) \<and>
         sigencode_string r s = Inr rs \<and>
         index sigder 3 = Inr lenR \<and> index sigder (5 + lenR) = Inr lenS \<and>
         \<not> (lenR = 32 \<and> lenS = 32))) \<and>
   (sign_attempt E sk dig' (Suc cnt) = Inr None \<longrightarrow>
      sign_search E sk dig' cnt = sign_search E sk dig' (Suc cnt)) \<and>
   (sign_digest E sk' dig'' (Suc cnt') = Inr sigder' \<and> sigdecode_der E sigder' = Inr (r', s') \<and>
    sigencode_string r' s' = Inr rs' \<and>
    index sigder' 3 = Inr 32 \<and> index sigder' (5 + 32) = Inr 32 \<and>
    recoverPubkeyParameter E dig'' rs' (get_verifying_key E sk') = Inr None \<longrightarrow>
      sign_search E sk' dig'' cnt' = Some (Inl TypeError))"
proof (intro conjI impI)
  show "recoverPubkeyParameter E dig rs pk = Inr (Some i) \<longleftrightarrow>
      (\<exists>pre post. [0, 1, 2, 3] = pre @ i # post \<and>
         (\<exists>p. recover_public_key E dig rs i = Inr (Some p) \<and> to_string E p = to_string E pk) \<and>
         (\<forall>j \<in> set pre. \<exists>q. recover_public_key E dig rs j = Inr (Some q) \<and>
                               to_string E q \<noteq> to_string E pk))"
    unfolding recoverPubkeyParameter_def by (rule recover_loop_Some_iff)
  show "recoverPubkeyParameter E dig rs pk = Inr None \<longleftrightarrow>
      (\<forall>j \<in> {0, 1, 2, 3}. \<exists>q. recover_public_key E dig rs j = Inr (Some q) \<and>
                               to_string E q \<noteq> to_string E pk)"
    unfolding recoverPubkeyParameter_def recover_loop_None_iff by simp
  show "sign_attempt E sk dig' n = Inr None \<longleftrightarrow>
      (\<exists>sigder r s rs lenR lenS.
         sign_digest E sk dig' n = Inr sigder \<and> sigdecode_der E sigder = Inr (r, s) \<and>
         sigencode_string r s = Inr rs \<and>
         index sigder 3 = Inr lenR \<and> index sigder (5 + lenR) = Inr lenS \<and>
         \<not> (lenR = 32 \<and> lenS = 32))"
    by (rule sign_attempt_retry_iff)
  show "sign_search E sk dig' cnt = sign_search E sk dig' (Suc cnt)"
    if "sign_attempt E sk dig' (Suc cnt) = Inr None"
    using that by (subst sign_search_step) simp
  show "sign_search E sk' dig'' cnt' = Some (Inl TypeError)"
    if "sign_digest E sk' dig'' (Suc cnt') = Inr sigder' \<and> sigdecode_der E sigder' = Inr (r', s') \<and>
    sigencode_string r' s' = Inr rs' \<and>
    index sigder' 3 = Inr 32 \<and> index sigder' (5 + 32) = Inr 32 \<and>
    recoverPubkeyParameter E dig'' rs' (get_verifying_key E sk') = Inr None"
  proof -
    from that have "sign_attempt E sk' dig'' (Suc cnt') = Inl TypeError"
      by (intro sign_attempt_no_match) auto
    then show ?thesis
      by (subst sign_search_step) simp
  qed
qed

theorem recovery_parameter_first_match_no_retry_witness:
  "recoverPubkeyParameter stub_ecdsa sample_chain_id (replicate 32 2 @ replicate 32 1) 1
     = Inr (Some 1) \<and>
   (\<exists>pre post. [0, 1, 2, 3] = pre @ 1 # post \<and>
      (\<exists>p. recover_public_key stub_ecdsa sample_chain_id (replicate 32 2 @ replicate 32 1) 1
              = Inr (Some p) \<and>
            to_string stub_ecdsa p = to_string stub_ecdsa 1) \<and>
      (\<forall>j \<in> set pre.
          \<exists>q. recover_public_key stub_ecdsa sample_chain_id (replicate 32 2 @ replicate 32 1) j
                 = Inr (Some q) \<and>
              to_string stub_ecdsa q \<noteq> to_string stub_ecdsa 1)) \<and>
   sign_attempt stub_ecdsa 1 sample_chain_id (Suc 0) = Inr None \<and>
   sign_search stub_ecdsa 1 sample_chain_id 0 = sign_search stub_ecdsa 1 sample_chain_id (Suc 0) \<and>
   (sign_digest stub_ecdsa 7 sample_chain_id (Suc (Suc 0))
      = Inr (der_pair (replicate 32 2) (replicate 32 1)) \<and>
    sigdecode_der stub_ecdsa (der_pair (replicate 32 2) (replicate 32 1))
      = Inr (be_int (replicate 32 2), be_int (replicate 32 1)) \<and>
    sigencode_string (be_int (replicate 32 2)) (be_int (replicate 32 1))
      = Inr (replicate 32 2 @ replicate 32 1) \<and>
    index (der_pair (replicate 32 2) (replicate 32 1)) 3 = Inr 32 \<and>
    index (der_pair (replicate 32 2) (replicate 32 1)) (5 + 32) = Inr 32 \<and>
    recoverPubkeyParameter stub_ecdsa sample_chain_id (replicate 32 2 @ replicate 32 1)
      (get_verifying_key stub_ecdsa 7) = Inr None) \<and>
   sign_search stub_ecdsa 7 sample_chain_id (Suc 0) = Some (Inl TypeError)"
proof -
  note t = recovery_parameter_first_match_no_retry[where E = stub_ecdsa
      and dig = sample_chain_id and rs = "replicate 32 2 @ replicate 32 1" and pk = 1 and i = 1
      and sk = 1 and dig' = sample_chain_id and cnt = 0
      and sk' = 7 and dig'' = sample_chain_id and cnt' = "Suc 0"
      and sigder' = "der_pair (replicate 32 2) (replicate 32 1)"
      and r' = "be_int (replicate 32 2)" and s' = "be_int (replicate 32 1)"
      and rs' = "replicate 32 2 @ replicate 32 1"]
  note t1 = t[THEN conjunct1]
  note t4 = t[THEN conjunct2, THEN conjunct2, THEN conjunct2, THEN conjunct1]
  note t5 = t[THEN conjunct2, THEN conjunct2, THEN conjunct2, THEN conjunct2]
  show ?thesis
    by (intro conjI)
       (rule stub_recover_key_1, rule t1[THEN iffD1, OF stub_recover_key_1],
        rule stub_attempts(1), rule t4[THEN mp, OF stub_attempts(1)],
        rule stub_second_attempt_key_7[THEN conjunct1],
        rule stub_second_attempt_key_7[THEN conjunct2, THEN conjunct1],
        rule stub_second_attempt_key_7[THEN conjunct2, THEN conjunct2, THEN conjunct1],
        rule stub_second_attempt_key_7[THEN conjunct2, THEN conjunct2, THEN conjunct2, THEN conjunct1],
        rule stub_second_attempt_key_7[THEN conjunct2, THEN conjunct2, THEN conjunct2, THEN conjunct2, THEN conjunct1],
        rule stub_second_attempt_key_7[THEN conjunct2, THEN conjunct2, THEN conjunct2, THEN conjunct2, THEN conjunct2],
        rule t5[THEN mp, OF stub_second_attempt_key_7])
qed

text \<open>
  C6.  A signed transaction is written as its fields one after the other, in the order
  of their declaration and with nothing between them: \<open>ref_block_num\<close> on two bytes and
  \<open>ref_block_prefix\<close> on four, least significant byte first, the expiration time on
  four, the operations as the varint of their number followed by the bytes of each of
  them in their order, the empty set of extensions as the single byte \<open>00\<close>, and the
  signatures: nothing while the field is the \<open>Void\<close> of \<open>__init__\<close>, the varint of their
  number and the bytes of each of them in their order once \<open>sign\<close> has stored its
  array.
\<close>

theorem Signed_Transaction_wire_layout:
  assumes "0 \<le> refNum" "refNum < 2 ^ 16" "0 \<le> refPrefix" "refPrefix < 2 ^ 32"
    and "tp (expiration @ ''UTC'') = Inr t" "0 \<le> t" "t < 2 ^ 32"
    and "list_all2 (\<lambda>a b. bytes_of tp a = Inr b) ops opbytes"
    and "list_all2 (\<lambda>a b. bytes_of tp a = Inr b) sigs sigbytes"
  shows "\<exists>count sigcount.
           varint (int (length ops)) = Inr count \<and>
           varint (int (length sigs)) = Inr sigcount \<and>
           bytes_of tp (Signed_Transaction_init refNum refPrefix expiration ops)
             = Inr (le_bytes 2 refNum @ le_bytes 4 refPrefix @ le_bytes 4 t @
                    count @ concat opbytes @ [0]) \<and>
           bytes_of tp (GrapheneObject ''Signed_Transaction''
               (Some (dict_set ''signatures'' (Array sigs)
                        (Signed_Transaction_data refNum refPrefix expiration ops))))
             = Inr (le_bytes 2 refNum @ le_bytes 4 refPrefix @ le_bytes 4 t @
                    count @ concat opbytes @ [0] @ sigcount @ concat sigbytes)"
proof -
  obtain count where c: "varint (int (length ops)) = Inr count"
    using varint_ok[of "int (length ops)"] by auto
  obtain sigcount where s: "varint (int (length sigs)) = Inr sigcount"
    using varint_ok[of "int (length sigs)"] by auto
  have h: "pack_H refNum = Inr (le_bytes 2 refNum)"
    using assms(1,2) by (rule pack_H_ok)
  have p: "pack_I refPrefix = Inr (le_bytes 4 refPrefix)"
    using assms(3,4) by (rule pack_I_ok)
  have e: "pack_I t = Inr (le_bytes 4 t)"
    using assms(6,7) by (rule pack_I_ok)
  have o: "bytes_join tp ops = Inr (concat opbytes)"
    using assms(8) by (rule bytes_join_concat)
  have g: "bytes_join tp sigs = Inr (concat sigbytes)"
    using assms(9) by (rule bytes_join_concat)
  have 1: "bytes_of tp (Signed_Transaction_init refNum refPrefix expiration ops)
             = Inr (le_bytes 2 refNum @ le_bytes 4 refPrefix @ le_bytes 4 t @
                    count @ concat opbytes @ [0])"
    by (simp add: Signed_Transaction_init_def Signed_Transaction_data_def h p e c o assms(5)
        Varint32_bytes_def varint_0)
  have 2: "bytes_of tp (GrapheneObject ''Signed_Transaction''
               (Some (dict_set ''signatures'' (Array sigs)
                        (Signed_Transaction_data refNum refPrefix expiration ops))))
             = Inr (le_bytes 2 refNum @ le_bytes 4 refPrefix @ le_bytes 4 t @
                    count @ concat opbytes @ [0] @ sigcount @ concat sigbytes)"
    by (simp add: Signed_Transaction_data_def h p e c s o g assms(5)
        Varint32_bytes_def varint_0)
  from c s 1 2 show ?thesis
    by blast
qed

theorem Signed_Transaction_wire_layout_witness:
  "(0::int) \<le> 34294 \<and> (34294::int) < 2 ^ 16 \<and>
   (0::int) \<le> 3707022213 \<and> (3707022213::int) < 2 ^ 32 \<and>
   sample_clock (''2016-01-01T00:00:00'' @ ''UTC'') = Inr 1451606400 \<and>
   (0::int) \<le> 1451606400 \<and> (1451606400::int) < 2 ^ 32 \<and>
   list_all2 (\<lambda>a b. bytes_of sample_clock a = Inr b)
     [Operation (sample_transfer (GrapheneObject ''Memo'' None)) ''transfer'' 0,
      Operation sample_custom ''custom'' 35]
     [[0, 10,0,0,0,0,0,0,0,0, 7, 0x80,1, 5,0,0,0,0,0,0,0,0, 0, 0], [35, 1, 0]] \<and>
   list_all2 (\<lambda>a b. bytes_of sample_clock a = Inr b)
     [Signature (replicate 65 31), Signature (replicate 65 32)]
     [replicate 65 31, replicate 65 32] \<and>
   bytes_of sample_clock (Signed_Transaction_init 34294 3707022213 ''2016-01-01T00:00:00''
      [Operation (sample_transfer (GrapheneObject ''Memo'' None)) ''transfer'' 0,
      Operation sample_custom ''custom'' 35])
     = Inr ([0xF6, 0x85] @ [0x85, 0xAB, 0xF4, 0xDC] @ [0x80, 0xC1, 0x85, 0x56] @ [2] @
            [0, 10,0,0,0,0,0,0,0,0, 7, 0x80,1, 5,0,0,0,0,0,0,0,0, 0, 0] @ [35, 1, 0] @ [0]) \<and>
   bytes_of sample_clock (GrapheneObject ''Signed_Transaction''
      (Some (dict_set ''signatures''
         (Array [Signature (replicate 65 31), Signature (replicate 65 32)])
         (Signed_Transaction_data 34294 3707022213 ''2016-01-01T00:00:00''
      [Operation (sample_transfer (GrapheneObject ''Memo'' None)) ''transfer'' 0,
      Operation sample_custom ''custom'' 35]))))
     = Inr ([0xF6, 0x85] @ [0x85, 0xAB, 0xF4, 0xDC] @ [0x80, 0xC1, 0x85, 0x56] @ [2] @
            [0, 10,0,0,0,0,0,0,0,0, 7, 0x80,1, 5,0,0,0,0,0,0,0,0, 0, 0] @ [35, 1, 0] @ [0] @
            [2] @ replicate 65 31 @ replicate 65 32)"
proof -
  have o1: "bytes_of sample_clock
              (Operation (sample_transfer (GrapheneObject ''Memo'' None)) ''transfer'' 0)
            = Inr [0, 10,0,0,0,0,0,0,0,0, 7, 0x80,1, 5,0,0,0,0,0,0,0,0, 0, 0]"
    by code_simp
  have o2: "bytes_of sample_clock (Operation sample_custom ''custom'' 35) = Inr [35, 1, 0]"
    by code_simp
  have la: "list_all2 (\<lambda>a b. bytes_of sample_clock a = Inr b)
     [Operation (sample_transfer (GrapheneObject ''Memo'' None)) ''transfer'' 0,
      Operation sample_custom ''custom'' 35]
     [[0, 10,0,0,0,0,0,0,0,0, 7, 0x80,1, 5,0,0,0,0,0,0,0,0, 0, 0], [35, 1, 0]]"
    using o1 o2 by (simp del: bytes_of.simps)
  have ls: "list_all2 (\<lambda>a b. bytes_of sample_clock a = Inr b)
     [Signature (replicate 65 31), Signature (replicate 65 32)]
     [replicate 65 31, replicate 65 32]"
    by simp
  have c: "sample_clock (''2016-01-01T00:00:00'' @ ''UTC'') = Inr 1451606400"
    by code_simp
  have v:
    "varint (int (length
     [Operation (sample_transfer (GrapheneObject ''Memo'' None)) ''transfer'' 0,
      Operation sample_custom ''custom'' 35])) = Inr [2]"
    "varint (int (length [Signature (replicate 65 31), Signature (replicate 65 32)]))
       = Inr [2]"
    by (simp_all add: varint_small)
  have l: "le_bytes 2 34294 = [0xF6, 0x85]"
    "le_bytes 4 3707022213 = [0x85, 0xAB, 0xF4, 0xDC]"
    "le_bytes 4 1451606400 = [0x80, 0xC1, 0x85, 0x56]"
    by code_simp+
  have r: "(0::int) \<le> 34294" "(34294::int) < 2 ^ 16" "(0::int) \<le> 3707022213"
    "(3707022213::int) < 2 ^ 32" "(0::int) \<le> 1451606400" "(1451606400::int) < 2 ^ 32"
    by simp_all
  from Signed_Transaction_wire_layout[OF r(1) r(2) r(3) r(4) c r(5) r(6) la ls]
  obtain count sigcount where
    k: "varint (int (length
     [Operation (sample_transfer (GrapheneObject ''Memo'' None)) ''transfer'' 0,
      Operation sample_custom ''custom'' 35])) = Inr count"
       "varint (int (length [Signature (replicate 65 31), Signature (replicate 65 32)]))
          = Inr sigcount" and
    b1: "bytes_of sample_clock (Signed_Transaction_init 34294 3707022213 ''2016-01-01T00:00:00''
      [Operation (sample_transfer (GrapheneObject ''Memo'' None)) ''transfer'' 0,
      Operation sample_custom ''custom'' 35])
         = Inr (le_bytes 2 34294 @ le_bytes 4 3707022213 @ le_bytes 4 1451606400 @ count @
                concat [[0, 10,0,0,0,0,0,0,0,0, 7, 0x80,1, 5,0,0,0,0,0,0,0,0, 0, 0], [35, 1, 0]]
                @ [0])" and
    b2: "bytes_of sample_clock (GrapheneObject ''Signed_Transaction''
      (Some (dict_set ''signatures''
         (Array [Signature (replicate 65 31), Signature (replicate 65 32)])
         (Signed_Transaction_data 34294 3707022213 ''2016-01-01T00:00:00''
      [Operation (sample_transfer (GrapheneObject ''Memo'' None)) ''transfer'' 0,
      Operation sample_custom ''custom'' 35]))))
         = Inr (le_bytes 2 34294 @ le_bytes 4 3707022213 @ le_bytes 4 1451606400 @ count @
                concat [[0, 10,0,0,0,0,0,0,0,0, 7, 0x80,1, 5,0,0,0,0,0,0,0,0, 0, 0], [35, 1, 0]]
                @ [0] @ sigcount @ concat [replicate 65 31, replicate 65 32])"
    by blast
  from k v have cs: "count = [2]" "sigcount = [2]"
    by simp_all
  have b1': "bytes_of sample_clock (Signed_Transaction_init 34294 3707022213 ''2016-01-01T00:00:00''
      [Operation (sample_transfer (GrapheneObject ''Memo'' None)) ''transfer'' 0,
      Operation sample_custom ''custom'' 35])
     = Inr ([0xF6, 0x85] @ [0x85, 0xAB, 0xF4, 0xDC] @ [0x80, 0xC1, 0x85, 0x56] @ [2] @
            [0, 10,0,0,0,0,0,0,0,0, 7, 0x80,1, 5,0,0,0,0,0,0,0,0, 0, 0] @ [35, 1, 0] @ [0])"
    unfolding b1 cs l by simp
  have b2': "bytes_of sample_clock (GrapheneObject ''Signed_Transaction''
      (Some (dict_set ''signatures''
         (Array [Signature (replicate 65 31), Signature (replicate 65 32)])
         (Signed_Transaction_data 34294 3707022213 ''2016-01-01T00:00:00''
      [Operation (sample_transfer (GrapheneObject ''Memo'' None)) ''transfer'' 0,
      Operation sample_custom ''custom'' 35]))))
     = Inr ([0xF6, 0x85] @ [0x85, 0xAB, 0xF4, 0xDC] @ [0x80, 0xC1, 0x85, 0x56] @ [2] @
            [0, 10,0,0,0,0,0,0,0,0, 7, 0x80,1, 5,0,0,0,0,0,0,0,0, 0, 0] @ [35, 1, 0] @ [0] @
            [2] @ replicate 65 31 @ replicate 65 32)"
    unfolding b2 cs l by (simp del: replicate.simps)
  show ?thesis
    by (intro conjI)
       (rule r(1), rule r(2), rule r(3), rule r(4), rule c, rule r(5), rule r(6),
        rule la, rule ls, rule b1', rule b2')
qed

text \<open>
  C7.  The claim: in the JSON rendering a field that holds an absent optional is left
  out and one that holds a present optional appears under its name.  The code does the
  opposite, \<open>isempty\<close> being \<open>bool(self.data)\<close>: the field of an \<open>Optional(None)\<close> is
  rendered (when the rendering of the value does not raise), and the field of an optional
  that holds an object is skipped.
\<close>

theorem json_optional_fields_inverted:
  "GrapheneObject_json render (Some [(name, Optional PyNone)])
     = (case render (Optional PyNone) of Inl e \<Rightarrow> Inl e | Inr j \<Rightarrow> Inr [(name, j)]) \<and>
   GrapheneObject_json render (Some [(name, Optional (GrapheneObject cls d))]) = Inr [] \<and>
   GrapheneObject_json render (Some [(name, Optional (Uint64 n))]) = Inr []"
  by (simp add: GrapheneObject_json_def isempty_def split: sum.splits)

text \<open>
  C8.  The claim: \<open>sign\<close> raises an error, before any signing work and with the fields
  of the transaction unchanged, exactly when the chain descriptor is bad.  With a mapping
  that has a \<open>chain_id\<close> which is not hexadecimal, \<open>sign\<close> raises too, from \<open>unhexlify\<close>,
  before any signing work and with the fields unchanged.
\<close>

theorem sign_other_early_error_counterexample:
  "\<not> bad_chain_descriptor (ChainDict [(''chain_id'', ''abc'')]) \<and>
   sign stub_ecdsa sample_clock [''K''] (ChainDict [(''chain_id'', ''abc'')]) sample_tx
     = Some (Some BinasciiError,
             sample_tx\<lparr>tx_privkeys := Some [''K''], tx_chainid := Some ''abc''\<rparr>) \<and>
   tx_data (sample_tx\<lparr>tx_privkeys := Some [''K''], tx_chainid := Some ''abc''\<rparr>)
     = tx_data sample_tx"
  by code_simp

text \<open>
  C8, as the code has it.  When the chain descriptor is bad, \<open>sign\<close> raises one of its
  two exceptions about the chain, first of all: the object is as it was.  When it is
  not, \<open>sign\<close> goes past that test and stores the keys and the \<open>chain_id\<close> in the
  object, and whatever it raises it raises later; the fields of the transaction are
  unchanged then as well.
\<close>

theorem sign_refuses_bad_chain_first:
  "(bad_chain_descriptor chain \<longrightarrow>
      (\<exists>msg. msg \<in> {''sign() only takes a string or a dict as chain!'',
                      ''sign() needs a 'chain_id' in chain params!''} \<and>
             sign E tp wifkeys chain self = Some (Some (Exception msg), self))) \<and>
   (\<not> bad_chain_descriptor chain' \<longrightarrow>
      (\<exists>ps cid. resolved_chain chain' = Some ps \<and> map_of ps ''chain_id'' = Some cid \<and>
         (\<forall>res self'. sign E tp wifkeys chain' self = Some (res, self') \<longrightarrow>
            tx_privkeys self' = Some (unique wifkeys) \<and> tx_chainid self' = Some cid \<and>
            tx_data self' = (case res of None \<Rightarrow> tx_data self' | Some e \<Rightarrow> tx_data self))))"
  using sign_bad_chain[of chain E tp wifkeys self] sign_good_chain[of chain' E tp wifkeys self]
  by blast

theorem sign_refuses_bad_chain_first_witness:
  "bad_chain_descriptor (ChainStr ''XYZ'') \<and>
   (\<exists>msg. msg \<in> {''sign() only takes a string or a dict as chain!'',
                   ''sign() needs a 'chain_id' in chain params!''} \<and>
          sign stub_ecdsa sample_clock [''K''] (ChainStr ''XYZ'') sample_tx
            = Some (Some (Exception msg), sample_tx)) \<and>
   \<not> bad_chain_descriptor (ChainStr ''GPH'') \<and>
   (\<exists>ps cid. resolved_chain (ChainStr ''GPH'') = Some ps \<and> map_of ps ''chain_id'' = Some cid \<and>
      (\<forall>res self'. sign stub_ecdsa sample_clock [''K''] (ChainStr ''GPH'') sample_tx
                       = Some (res, self') \<longrightarrow>
         tx_privkeys self' = Some (unique [''K'']) \<and> tx_chainid self' = Some cid \<and>
         tx_data self' = (case res of None \<Rightarrow> tx_data self' | Some e \<Rightarrow> tx_data sample_tx)))"
proof -
  note t = sign_refuses_bad_chain_first[of "ChainStr ''XYZ''" stub_ecdsa sample_clock "[''K'']"
      sample_tx "ChainStr ''GPH''"]
  show ?thesis
    by (intro conjI)
       (rule bad_XYZ, rule t[THEN conjunct1, THEN mp, OF bad_XYZ],
        rule good_GPH, rule t[THEN conjunct2, THEN mp, OF good_GPH])
qed

text \<open>
  C9.  The claim: building an \<open>ObjectId\<close> raises exactly when the text is not three
  non-negative integers separated by dots, or the type hint does not match.  The code
  has no test of the sign: \<open>int\<close> reads \<open>-5\<close>, and these two texts build an object.
\<close>

theorem ObjectId_init_negative_counterexample:
  "py_int ''-5'' = Some (- 5) \<and> py_int ''-1'' = Some (- 1) \<and>
   ObjectId_init py_int ''1.2.-5'' None = Inr (ObjectId 1 2 (- 5) ''1.2.-5'') \<and>
   ObjectId_init py_int ''-1.2.3'' (Some ''account'') = Inr (ObjectId (- 1) 2 3 ''-1.2.3'')"
  by code_simp

text \<open>
  C9, as the code has it, whatever the builtin \<open>int\<close> accepts: building an \<open>ObjectId\<close>
  raises exactly when the text does not split at its dots into three pieces, or \<open>int\<close>
  rejects one of the pieces, or a type hint that is not empty names no object type or
  another type than the second piece.  When it returns, the wire form of the object is
  the varint of the third piece alone.  The three examples of the specification hold
  as soon as \<open>int\<close> reads the six numerals in them.
\<close>

theorem ObjectId_init_errors_and_wire:
  "((\<exists>e. ObjectId_init to_int s tv = Inl e) \<longleftrightarrow>
     (length (str_split s CHR ''.'') \<noteq> 3 \<or>
      (\<exists>p \<in> set (str_split s CHR ''.''). to_int p = None) \<or>
      (\<exists>hint. tv = Some hint \<and> hint \<noteq> [] \<and>
              map_of object_type hint \<noteq> to_int (str_split s CHR ''.'' ! 1)))) \<and>
   (ObjectId_init to_int s tv = Inr v \<longrightarrow>
     (\<exists>sp ty inst. v = ObjectId sp ty inst s \<and>
        to_int (str_split s CHR ''.'' ! 2) = Some inst \<and> bytes_of tp v = varint inst)) \<and>
   (int_of ''0'' = Some 0 \<and> int_of ''1'' = Some 1 \<and> int_of ''2'' = Some 2 \<and>
    int_of ''3'' = Some 3 \<and> int_of ''7'' = Some 7 \<and> int_of ''128'' = Some 128 \<longrightarrow>
      ObjectId_init int_of ''1.3.0'' None = Inr (ObjectId 1 3 0 ''1.3.0'') \<and>
      ObjectId_init int_of ''1.2.7'' None = Inr (ObjectId 1 2 7 ''1.2.7'') \<and>
      ObjectId_init int_of ''1.2.128'' None = Inr (ObjectId 1 2 128 ''1.2.128'')) \<and>
   bytes_of tp (ObjectId 1 3 0 ''1.3.0'') = Inr [0x00] \<and>
   bytes_of tp (ObjectId 1 2 7 ''1.2.7'') = Inr [0x07] \<and>
   bytes_of tp (ObjectId 1 2 128 ''1.2.128'') = Inr [0x80, 0x01]"
  using ObjectId_init_raises_iff[of to_int s tv] ObjectId_init_wire[of to_int s tv v tp]
    ObjectId_init_pieces[OF split_examples(1), of int_of]
    ObjectId_init_pieces[OF split_examples(2), of int_of]
    ObjectId_init_pieces[OF split_examples(3), of int_of]
  by (simp add: Id_bytes_def Varint32_bytes_def varint_small varint_128)

theorem ObjectId_init_errors_and_wire_witness:
  "ObjectId_init py_int ''1.2.7'' (Some ''account'') = Inr (ObjectId 1 2 7 ''1.2.7'') \<and>
   (\<exists>sp ty inst. ObjectId 1 2 7 ''1.2.7'' = ObjectId sp ty inst ''1.2.7'' \<and>
        py_int (str_split ''1.2.7'' CHR ''.'' ! 2) = Some inst \<and>
        bytes_of sample_clock (ObjectId 1 2 7 ''1.2.7'') = varint inst) \<and>
   (py_int ''0'' = Some 0 \<and> py_int ''1'' = Some 1 \<and> py_int ''2'' = Some 2 \<and>
    py_int ''3'' = Some 3 \<and> py_int ''7'' = Some 7 \<and> py_int ''128'' = Some 128) \<and>
   (ObjectId_init py_int ''1.3.0'' None = Inr (ObjectId 1 3 0 ''1.3.0'') \<and>
    ObjectId_init py_int ''1.2.7'' None = Inr (ObjectId 1 2 7 ''1.2.7'') \<and>
    ObjectId_init py_int ''1.2.128'' None = Inr (ObjectId 1 2 128 ''1.2.128''))"
proof -
  have i: "ObjectId_init py_int ''1.2.7'' (Some ''account'') = Inr (ObjectId 1 2 7 ''1.2.7'')"
    by code_simp
  have n: "py_int ''0'' = Some 0 \<and> py_int ''1'' = Some 1 \<and> py_int ''2'' = Some 2 \<and>
    py_int ''3'' = Some 3 \<and> py_int ''7'' = Some 7 \<and> py_int ''128'' = Some 128"
    by code_simp
  note t = ObjectId_init_errors_and_wire[of py_int "''1.2.7''" "Some ''account''"
      "ObjectId 1 2 7 ''1.2.7''" sample_clock py_int]
  have w: "\<exists>sp ty inst. ObjectId 1 2 7 ''1.2.7'' = ObjectId sp ty inst ''1.2.7'' \<and>
        py_int (str_split ''1.2.7'' CHR ''.'' ! 2) = Some inst \<and>
        bytes_of sample_clock (ObjectId 1 2 7 ''1.2.7'') = varint inst"
    by (rule t[THEN conjunct2, THEN conjunct1, THEN mp, OF i])
  have e: "ObjectId_init py_int ''1.3.0'' None = Inr (ObjectId 1 3 0 ''1.3.0'') \<and>
    ObjectId_init py_int ''1.2.7'' None = Inr (ObjectId 1 2 7 ''1.2.7'') \<and>
    ObjectId_init py_int ''1.2.128'' None = Inr (ObjectId 1 2 128 ''1.2.128'')"
    by (rule t[THEN conjunct2, THEN conjunct2, THEN conjunct1, THEN mp, OF n])
  show ?thesis
    by (rule conjI[OF i conjI[OF w conjI[OF n e]]])
qed

text \<open>
  C10.  A field of a composite that holds a raw string is written as the UTF-8 bytes of
  the string alone; the \<open>String\<close> codec writes the varint of the length in front of the
  same bytes, and that prefix is never empty: the same text in the two wrappers gives
  two different encodings.
\<close>

theorem raw_string_field_has_no_length_prefix:
  "bytes_of tp (GrapheneObject cls (Some [(name, PyStr s)])) = Inr (utf8 s) \<and>
   (\<exists>v. v \<noteq> [] \<and> varint (int (length s)) = Inr v \<and>
        bytes_of tp (String s) = Inr (v @ utf8 s) \<and>
        bytes_of tp (GrapheneObject cls (Some [(name, String s)])) = Inr (v @ utf8 s)) \<and>
   bytes_of tp (GrapheneObject cls (Some [(name, PyStr s)])) \<noteq>
     bytes_of tp (GrapheneObject cls (Some [(name, String s)]))"
proof -
  obtain v where v: "v \<noteq> []" "varint (int (length s)) = Inr v"
    using varint_ok[of "int (length s)"] by auto
  then show ?thesis
    by auto
qed

end
